theory Spec2Isabelle
  imports Complex_Main "HOL-Library.Product_Lexorder" "HOL-Library.List_Lexorder"
begin

section \<open>The model\<close>

subsection \<open>Dates, the calendar and the day-type classifier\<close>

text \<open>
  The Python exceptions that the modelled functions can raise are values of
  \<open>py_error\<close>; a function that can raise returns \<open>py_error + 'a\<close>.
\<close>

datatype py_error = KeyError | IndexError | IllegalMonthError | ValueError

text \<open>
  A \<open>datetime.date\<close>: the three attributes \<open>year\<close>, \<open>month\<close>, \<open>day\<close>.
  Python compares dates by the triple \<open>(year, month, day)\<close>, which is \<open>date_key\<close>
  under the lexicographic order on products.
\<close>

record date =
  year :: int
  month :: int
  day :: int

definition date_key :: "date \<Rightarrow> int \<times> int \<times> int" where
  "date_key dt = (year dt, month dt, day dt)"

definition mk_date :: "int \<Rightarrow> int \<Rightarrow> int \<Rightarrow> date" where
  "mk_date y m d = \<lparr>year = y, month = m, day = d\<rparr>"

text \<open>
  The proleptic Gregorian ordinal of CPython's \<open>datetime\<close> module
  (\<open>_is_leap\<close>, \<open>_days_before_year\<close>, \<open>_days_before_month\<close>, \<open>_ymd2ord\<close>) and
  \<open>date.weekday()\<close>, which is \<open>(toordinal() + 6) % 7\<close>: Monday is 0, Sunday is 6.
\<close>

definition is_leap :: "int \<Rightarrow> bool" where
  "is_leap y = (y mod 4 = 0 \<and> (y mod 100 \<noteq> 0 \<or> y mod 400 = 0))"

definition days_before_year :: "int \<Rightarrow> int" where
  "days_before_year y = (y - 1) * 365 + (y - 1) div 4 - (y - 1) div 100 + (y - 1) div 400"

definition DAYS_IN_MONTH :: "int list" where
  "DAYS_IN_MONTH = [-1, 31, 28, 31, 30, 31, 30, 31, 31, 30, 31, 30, 31]"

definition days_in_month :: "int \<Rightarrow> int \<Rightarrow> int" where
  "days_in_month y m = (if m = 2 \<and> is_leap y then 29 else DAYS_IN_MONTH ! nat m)"

definition days_before_month :: "int \<Rightarrow> int \<Rightarrow> int" where
  "days_before_month y m =
     sum_list (take (nat m - 1) (tl DAYS_IN_MONTH)) + (if m > 2 \<and> is_leap y then 1 else 0)"

definition ymd2ord :: "int \<Rightarrow> int \<Rightarrow> int \<Rightarrow> int" where
  "ymd2ord y m d = days_before_year y + days_before_month y m + d"

definition toordinal :: "date \<Rightarrow> int" where
  "toordinal dt = ymd2ord (year dt) (month dt) (day dt)"

definition weekday :: "date \<Rightarrow> int" where
  "weekday dt = (toordinal dt + 6) mod 7"

text \<open>
  The \<open>calendar\<close> module with its default first weekday 0 (Monday):
  \<open>calendar.weekday\<close> (which maps a year outside 1..9999 into 2000..2399),
  \<open>monthrange\<close> (which raises \<open>IllegalMonthError\<close> outside 1..12),
  \<open>itermonthdays\<close> (the days of the month padded with 0 to whole weeks) and
  \<open>monthcalendar\<close> (that list cut into weeks of seven).
\<close>

definition SATURDAY :: nat where
  "SATURDAY = 5"

definition calendar_weekday :: "int \<Rightarrow> int \<Rightarrow> int \<Rightarrow> int" where
  "calendar_weekday y m d =
     (let y' = (if \<not> (1 \<le> y \<and> y \<le> 9999) then 2000 + y mod 400 else y)
      in weekday (mk_date y' m d))"

definition monthrange :: "int \<Rightarrow> int \<Rightarrow> py_error + (int \<times> int)" where
  "monthrange y m =
     (if \<not> (1 \<le> m \<and> m \<le> 12) then Inl IllegalMonthError
      else Inr (calendar_weekday y m 1,
                DAYS_IN_MONTH ! nat m + (if m = 2 \<and> is_leap y then 1 else 0)))"

definition itermonthdays :: "int \<Rightarrow> int \<Rightarrow> py_error + int list" where
  "itermonthdays y m =
     (case monthrange y m of
        Inl e \<Rightarrow> Inl e
      | Inr (day1, ndays) \<Rightarrow>
          Inr (replicate (nat ((day1 - 0) mod 7)) 0
               @ [1 ..  ndays]
               @ replicate (nat ((0 - day1 - ndays) mod 7)) 0))"

function chunks :: "nat \<Rightarrow> 'a list \<Rightarrow> 'a list list" where
  "chunks n xs = (if n = 0 \<or> xs = [] then [] else take n xs # chunks n (drop n xs))"
  by pat_completeness auto

termination
  by (relation "measure (\<lambda>(n, xs). length xs)") auto

declare chunks.simps [simp del]

definition monthcalendar :: "int \<Rightarrow> int \<Rightarrow> py_error + int list list" where
  "monthcalendar y m =
     (case itermonthdays y m of Inl e \<Rightarrow> Inl e | Inr days \<Rightarrow> Inr (chunks 7 days))"

text \<open>Python's \<open>xs[i]\<close> for a non-negative index: \<open>IndexError\<close> out of range.\<close>

definition py_index :: "'a list \<Rightarrow> nat \<Rightarrow> py_error + 'a" where
  "py_index xs i = (if i < length xs then Inr (xs ! i) else Inl IndexError)"

text \<open>
  \<open>get_second_saturday\<close> (the same body in \<open>day_type_collecting.py\<close> and in
  \<open>day_type_collecting_functional.py\<close>). The source returns the string
  \<open>f"{year:04d}-{month:02d}-{second_saturday:02d}"\<close>; the model returns the date that
  the string writes down.
\<close>

definition get_second_saturday :: "int \<Rightarrow> int \<Rightarrow> py_error + date" where
  "get_second_saturday y m =
     (case monthcalendar y m of
        Inl e \<Rightarrow> Inl e
      | Inr cal \<Rightarrow>
         (case py_index cal 0 of
            Inl e \<Rightarrow> Inl e
          | Inr first_week \<Rightarrow>
             (case py_index first_week SATURDAY of
                Inl e \<Rightarrow> Inl e
              | Inr s0 \<Rightarrow>
                 (case py_index cal 1 of
                    Inl e \<Rightarrow> Inl e
                  | Inr week1 \<Rightarrow>
                     (case py_index week1 SATURDAY of
                        Inl e \<Rightarrow> Inl e
                      | Inr s1 \<Rightarrow>
                         if s0 \<noteq> 0 then Inr (mk_date y m s1)
                         else if s1 = 0 then
                           (case py_index cal 2 of
                              Inl e \<Rightarrow> Inl e
                            | Inr week2 \<Rightarrow>
                               (case py_index week2 SATURDAY of
                                  Inl e \<Rightarrow> Inl e
                                | Inr s2 \<Rightarrow> Inr (mk_date y m s2)))
                         else Inr (mk_date y m s1))))))"

text \<open>
  The second Saturday as the calendar has it: the second of the days of the month
  that fall on a Saturday. This definition follows the specification's words and is
  the one \<open>get_second_saturday\<close> is compared with.
\<close>

definition saturdays_of_month :: "int \<Rightarrow> int \<Rightarrow> int list" where
  "saturdays_of_month y m =
     filter (\<lambda>d. weekday (mk_date y m d) = 5) [1 .. days_in_month y m]"

definition second_saturday_spec :: "int \<Rightarrow> int \<Rightarrow> py_error + date" where
  "second_saturday_spec y m =
     (case py_index (saturdays_of_month y m) 1 of
        Inl e \<Rightarrow> Inl e
      | Inr d \<Rightarrow> Inr (mk_date y m d))"

text \<open>
  \<open>get_festival_dates\<close>: the dictionary from festival name to date, in insertion
  order. The names are Thai strings; only the values are used by the classifier, so
  the model keeps the values.
\<close>

definition get_festival_dates :: "int \<Rightarrow> py_error + date list" where
  "get_festival_dates y =
     (case get_second_saturday y 1 of
        Inl e \<Rightarrow> Inl e
      | Inr second_sat_jan \<Rightarrow>
          Inr [second_sat_jan, mk_date y 2 14, mk_date y 4 13, mk_date y 4 14,
               mk_date y 4 15, mk_date y 12 24, mk_date y 12 25, mk_date y 12 31])"

text \<open>
  The body of the classification loop (lines 185-197 of \<open>day_type_collecting.py\<close>,
  lines 128-142 of \<open>day_type_collecting_functional.py\<close>): the date string is looked up
  in the holiday set, then in the festival set. A date string \<open>%Y-%m-%d\<close> is modelled
  by the date it writes down. Day types: 0 Holiday, 1 Normal, 2 Festival.
\<close>

definition classify_day :: "date \<Rightarrow> date set \<Rightarrow> date set \<Rightarrow> int" where
  "classify_day date_str holiday_dates festival_dates =
     (if date_str \<in> holiday_dates then 0
      else if date_str \<in> festival_dates then 2
      else 1)"

fun collect_festivals :: "int list \<Rightarrow> py_error + date list" where
  "collect_festivals [] = Inr []"
| "collect_festivals (y # ys) =
     (case get_festival_dates y of
        Inl e \<Rightarrow> Inl e
      | Inr fs \<Rightarrow> (case collect_festivals ys of Inl e \<Rightarrow> Inl e | Inr gs \<Rightarrow> Inr (fs @ gs)))"

text \<open>
  \<open>classify_day_types\<close>: the holiday set is the set built from the calendar file
  (its parsing is outside the model); the festival set is collected over the years
  of the dates. The result pairs each date with its day type.
\<close>

definition classify_day_types :: "date list \<Rightarrow> date set \<Rightarrow> py_error + (date \<times> int) list" where
  "classify_day_types dates holiday_dates =
     (if dates = [] then Inr []
      else case collect_festivals (remdups (map year dates)) of
             Inl e \<Rightarrow> Inl e
           | Inr fs \<Rightarrow> Inr (map (\<lambda>date_obj. (date_obj, classify_day date_obj holiday_dates (set fs))) dates))"

text \<open>
  The body of \<open>get_second_saturday\<close> as a function of the padded list of days; it
  serves to reason about all months at once.
\<close>

definition second_saturday_of :: "int list \<Rightarrow> py_error + int" where
  "second_saturday_of days =
     (let cal = chunks 7 days in
      case py_index cal 0 of Inl e \<Rightarrow> Inl e | Inr first_week \<Rightarrow>
      case py_index first_week SATURDAY of Inl e \<Rightarrow> Inl e | Inr s0 \<Rightarrow>
      case py_index cal 1 of Inl e \<Rightarrow> Inl e | Inr week1 \<Rightarrow>
      case py_index week1 SATURDAY of Inl e \<Rightarrow> Inl e | Inr s1 \<Rightarrow>
        if s0 \<noteq> 0 then Inr s1
        else if s1 = 0 then
          (case py_index cal 2 of Inl e \<Rightarrow> Inl e | Inr week2 \<Rightarrow>
           case py_index week2 SATURDAY of Inl e \<Rightarrow> Inl e | Inr s2 \<Rightarrow> Inr s2)
        else Inr s1)"

subsection \<open>The features table and its writers\<close>

text \<open>
  A row of the table \<open>features\<close> (\<open>tables.py\<close>): \<open>feature_date\<close> is the primary
  key, \<open>day_type\<close> and \<open>dow\<close> are \<open>NOT NULL\<close>, the rain average and the seven
  line columns are nullable floats (\<open>None\<close> is SQL \<open>NULL\<close>). Python floats are
  modelled by reals. The table is the list of its rows.
\<close>

record features_row =
  feature_date :: date
  day_type :: int
  dow :: int
  rain_average :: "real option"
  arl :: "real option"
  bts :: "real option"
  mrt_blue :: "real option"
  mrt_purple :: "real option"
  srt_red :: "real option"
  mrt_yellow :: "real option"
  mrt_pink :: "real option"

type_synonym store = "features_row list"

text \<open>
  \<open>insert_new_data\<close>: the rows are sorted by date and written in pages of 100, each
  page by one \<open>INSERT ... ON CONFLICT (feature_date) DO UPDATE\<close> statement that
  overwrites every non-key column of an existing row and appends a missing one.
  PostgreSQL rejects a statement that proposes the same key twice; any exception
  leaves the function through \<open>except\<close> with \<open>False\<close> and nothing committed. An empty
  frame raises at \<open>iloc[0]\<close> and takes the same exit. The sort of pandas is modelled by
  the stable sort on the date key.
\<close>

datatype db_error = CardinalityViolation

definition upsert_row :: "features_row \<Rightarrow> store \<Rightarrow> store" where
  "upsert_row r s =
     (if feature_date r \<in> feature_date ` set s
      then map (\<lambda>x. if feature_date x = feature_date r
                     then x\<lparr>day_type := day_type r, dow := dow r,
                            rain_average := rain_average r,
                            arl := arl r, bts := bts r, mrt_blue := mrt_blue r,
                            mrt_purple := mrt_purple r, srt_red := srt_red r,
                            mrt_yellow := mrt_yellow r, mrt_pink := mrt_pink r\<rparr>
                     else x) s
      else s @ [r])"

definition execute_upsert :: "features_row list \<Rightarrow> store \<Rightarrow> db_error + store" where
  "execute_upsert page s =
     (if distinct (map feature_date page) then Inr (fold upsert_row page s)
      else Inl CardinalityViolation)"

fun execute_values :: "features_row list list \<Rightarrow> store \<Rightarrow> db_error + store" where
  "execute_values [] s = Inr s"
| "execute_values (page # pages) s =
     (case execute_upsert page s of
        Inl e \<Rightarrow> Inl e
      | Inr s' \<Rightarrow> execute_values pages s')"

definition insert_new_data :: "features_row list \<Rightarrow> store \<Rightarrow> bool \<times> store" where
  "insert_new_data df s =
     (let df' = sort_key (\<lambda>r. date_key (feature_date r)) df
      in if df' = [] then (False, s)
         else case execute_values (chunks 100 df') s of
                Inl e \<Rightarrow> (False, s)
              | Inr s' \<Rightarrow> (True, s'))"

text \<open>
  The last row of a batch that carries a given date; used to describe the table after
  a batch has been written.
\<close>

primrec latest :: "features_row list \<Rightarrow> date \<Rightarrow> features_row option" where
  "latest [] d = None"
| "latest (r # rs) d =
     (case latest rs d of
        Some q \<Rightarrow> Some q
      | None \<Rightarrow> if feature_date r = d then Some r else None)"

text \<open>
  \<open>update_day_type_in_db\<close>: for each row of the batch one
  \<open>UPDATE features SET day_type = %s WHERE feature_date = %s AND day_type = -1\<close>;
  \<open>updated_count\<close> counts the statements whose \<open>rowcount\<close> is positive. An empty batch
  returns \<open>False\<close> without touching the table.
\<close>

definition sql_update_day_type :: "int \<Rightarrow> date \<Rightarrow> features_row \<Rightarrow> features_row" where
  "sql_update_day_type t d x =
     (if feature_date x = d \<and> day_type x = -1 then x\<lparr>day_type := t\<rparr> else x)"

fun day_type_loop :: "(date \<times> int) list \<Rightarrow> store \<Rightarrow> nat \<Rightarrow> store \<times> nat" where
  "day_type_loop [] s updated_count = (s, updated_count)"
| "day_type_loop ((d, t) # rows) s updated_count =
     (let rowcount = length (filter (\<lambda>x. feature_date x = d \<and> day_type x = -1) s);
          s' = map (sql_update_day_type t d) s
      in day_type_loop rows s' (if rowcount > 0 then updated_count + 1 else updated_count))"

definition update_day_type_in_db :: "(date \<times> int) list \<Rightarrow> store \<Rightarrow> bool \<times> store" where
  "update_day_type_in_db day_type_data s =
     (if day_type_data = [] then (False, s)
      else (True, fst (day_type_loop day_type_data s 0)))"

text \<open>
  \<open>update_rain_average_in_db\<close>: the same loop with
  \<open>UPDATE features SET rain_average = %s WHERE feature_date = %s AND rain_average IS NULL\<close>.
\<close>

definition sql_update_rain :: "real \<Rightarrow> date \<Rightarrow> features_row \<Rightarrow> features_row" where
  "sql_update_rain v d x =
     (if feature_date x = d \<and> rain_average x = None then x\<lparr>rain_average := Some v\<rparr> else x)"

fun rain_loop :: "(date \<times> real) list \<Rightarrow> store \<Rightarrow> nat \<Rightarrow> store \<times> nat" where
  "rain_loop [] s updated_count = (s, updated_count)"
| "rain_loop ((d, v) # rows) s updated_count =
     (let rowcount = length (filter (\<lambda>x. feature_date x = d \<and> rain_average x = None) s);
          s' = map (sql_update_rain v d) s
      in rain_loop rows s' (if rowcount > 0 then updated_count + 1 else updated_count))"

definition update_rain_average_in_db :: "(date \<times> real) list \<Rightarrow> store \<Rightarrow> bool \<times> store" where
  "update_rain_average_in_db rain_data s =
     (if rain_data = [] then (False, s)
      else (True, fst (rain_loop rain_data s 0)))"

text \<open>What a batch of guarded updates does to one row.\<close>

definition day_type_steps :: "(date \<times> int) list \<Rightarrow> features_row \<Rightarrow> features_row" where
  "day_type_steps B = fold (\<lambda>(d, t). sql_update_day_type t d) B"

definition rain_steps :: "(date \<times> real) list \<Rightarrow> features_row \<Rightarrow> features_row" where
  "rain_steps B = fold (\<lambda>(d, v). sql_update_rain v d) B"

subsection \<open>Quality checks\<close>

text \<open>
  The quality checks of \<open>weekly_data_collecting copy.py\<close>. Each check reads the rows
  with \<open>feature_date >= CURRENT_DATE - INTERVAL '7 days'\<close> (\<open>in_window\<close>, with the
  current date as a parameter), builds its report and returns the id of the task the
  branch operator runs next. The table is a value of the model, so the queries cannot
  raise.
\<close>

datatype status = PASS | WARNING | FAIL

datatype column = Arl | Bts | Mrt_blue | Mrt_purple | Mrt_pink | Srt_red | Mrt_yellow

datatype task =
    Start_weekly_data_collection
  | Collect_mot_transport_data
  | Mot_quality_check
  | Collect_rain_weather_data
  | Rain_quality_check
  | Collect_day_type_data
  | Day_type_quality_check
  | Final_quality_validation
  | Pipeline_success
  | Mot_quality_failed
  | Rain_quality_failed
  | Day_type_quality_failed
  | End_weekly_data_collection

fun column_value :: "column \<Rightarrow> features_row \<Rightarrow> real option" where
  "column_value Arl r = arl r"
| "column_value Bts r = bts r"
| "column_value Mrt_blue r = mrt_blue r"
| "column_value Mrt_purple r = mrt_purple r"
| "column_value Mrt_pink r = mrt_pink r"
| "column_value Srt_red r = srt_red r"
| "column_value Mrt_yellow r = mrt_yellow r"

definition transport_columns :: "column list" where
  "transport_columns = [Arl, Bts, Mrt_blue, Mrt_purple, Mrt_pink, Srt_red, Mrt_yellow]"

fun anomaly_thresholds :: "column \<Rightarrow> real" where
  "anomaly_thresholds Bts = 2000000"
| "anomaly_thresholds Mrt_blue = 1500000"
| "anomaly_thresholds Mrt_purple = 800000"
| "anomaly_thresholds Arl = 200000"
| "anomaly_thresholds Srt_red = 300000"
| "anomaly_thresholds Mrt_yellow = 500000"
| "anomaly_thresholds Mrt_pink = 400000"

definition in_window :: "date \<Rightarrow> features_row \<Rightarrow> bool" where
  "in_window today r = (toordinal today - 7 \<le> toordinal (feature_date r))"

text \<open>
  The report strings \<open>f"{date} (NULL)"\<close>, \<open>f"{date} (ZERO)"\<close> and the two anomaly
  messages are modelled by constructors that carry the same data.
\<close>

datatype issue = NULL_value date | ZERO_value date

datatype anomaly = Negative column real date | Above_threshold column real real date

record quality_check =
  records_processed :: nat
  quality_score :: real
  status :: status

record mot_quality_check = quality_check +
  missing_data :: "(column \<times> issue list) list"
  anomalies :: "anomaly list"

record rain_quality_check = quality_check +
  null_rain_remaining :: nat
  rain_anomalies :: "(real \<times> date) list"

datatype day_name = Saturday | Sunday

record day_type_quality_check = quality_check +
  pending_day_type_remaining :: nat
  classification_errors :: "(day_name \<times> date \<times> int) list"

definition order_by_feature_date :: "features_row list \<Rightarrow> features_row list" where
  "order_by_feature_date rows = sort_key (\<lambda>r. date_key (feature_date r)) rows"

definition column_issues :: "date \<Rightarrow> store \<Rightarrow> column \<Rightarrow> (column \<times> issue list) list" where
  "column_issues today s c =
     (let null_dates = map feature_date (order_by_feature_date
            (filter (\<lambda>r. in_window today r \<and> column_value c r = None) s));
          zero_dates = map feature_date (order_by_feature_date
            (filter (\<lambda>r. in_window today r \<and> column_value c r = Some 0) s))
      in if null_dates \<noteq> [] \<or> zero_dates \<noteq> []
         then [(c, map NULL_value null_dates @ map ZERO_value zero_dates)]
         else [])"

definition column_anomalies :: "date \<Rightarrow> store \<Rightarrow> column \<Rightarrow> anomaly list" where
  "column_anomalies today s c =
     (let threshold = anomaly_thresholds c
      in concat (map (\<lambda>r.
           case column_value c r of
             None \<Rightarrow> []
           | Some v \<Rightarrow>
               if in_window today r \<and> (v > threshold \<or> v < 0)
               then (if v < 0 then [Negative c v (feature_date r)]
                     else [Above_threshold c v threshold (feature_date r)])
               else []) s))"

definition mot_branch :: "status \<Rightarrow> task" where
  "mot_branch st = (if st = FAIL then Mot_quality_failed else Collect_rain_weather_data)"

definition check_mot_data_quality :: "date \<Rightarrow> store \<Rightarrow> mot_quality_check \<times> task" where
  "check_mot_data_quality today s =
     (let processed = length (filter (in_window today) s);
          missing = concat (map (column_issues today s) transport_columns);
          anoms = concat (map (column_anomalies today s) transport_columns);
          total_expected_records = 7 * length transport_columns;
          total_missing = sum_list (map (\<lambda>(c, dates). length dates) missing);
          score = max 0 ((real total_expected_records - real total_missing)
                           / real total_expected_records);
          st = (if score < 0.8 then FAIL
                else if anoms \<noteq> [] \<or> total_missing > 0 then WARNING
                else PASS)
      in (\<lparr>records_processed = processed, quality_score = score, status = st,
           missing_data = missing, anomalies = anoms\<rparr>,
          mot_branch st))"

text \<open>
  \<open>mot_result.get("records_processed", 0) if mot_result else 7\<close>: the report of the
  transit check pulled from XCom, or 7 when there is none.
\<close>

definition total_records_of :: "mot_quality_check option \<Rightarrow> nat" where
  "total_records_of mot_result =
     (case mot_result of Some m \<Rightarrow> records_processed m | None \<Rightarrow> 7)"

definition rain_branch :: "status \<Rightarrow> task" where
  "rain_branch st = (if st = FAIL then Rain_quality_failed else Collect_day_type_data)"

definition check_rain_data_quality ::
    "date \<Rightarrow> mot_quality_check option \<Rightarrow> store \<Rightarrow> rain_quality_check \<times> task" where
  "check_rain_data_quality today mot_result s =
     (let null_remaining = length (filter (\<lambda>r. in_window today r \<and> rain_average r = None) s);
          processed = length (filter (\<lambda>r. in_window today r \<and> rain_average r \<noteq> None) s);
          anoms = concat (map (\<lambda>r.
                    case rain_average r of
                      None \<Rightarrow> []
                    | Some v \<Rightarrow> if in_window today r \<and> (v < 0 \<or> v > 200)
                                then [(v, feature_date r)] else []) s);
          total_records = total_records_of mot_result;
          score = (if total_records > 0 then real processed / real total_records else 0);
          st0 = (if null_remaining > 0 then WARNING else PASS);
          st = (if score < 0.8 then FAIL else st0)
      in (\<lparr>records_processed = processed, quality_score = score, status = st,
           null_rain_remaining = null_remaining, rain_anomalies = anoms\<rparr>,
          rain_branch st))"

definition day_type_branch :: "status \<Rightarrow> task" where
  "day_type_branch st = (if st = FAIL then Day_type_quality_failed else Final_quality_validation)"

text \<open>
  The consistency query of the day-type check:
  \<open>dow IN (6, 0) AND day_type NOT IN (1, 2)\<close>.
\<close>

definition weekend_errors :: "date \<Rightarrow> store \<Rightarrow> features_row list" where
  "weekend_errors today s =
     filter (\<lambda>r. in_window today r \<and> dow r \<in> {6, 0} \<and> day_type r \<notin> {1, 2}) s"

definition check_day_type_data_quality ::
    "date \<Rightarrow> mot_quality_check option \<Rightarrow> store \<Rightarrow> day_type_quality_check \<times> task" where
  "check_day_type_data_quality today mot_result s =
     (let pending = length (filter (\<lambda>r. in_window today r \<and> day_type r = -1) s);
          processed = length (filter (\<lambda>r. in_window today r \<and> day_type r \<noteq> -1) s);
          errors = map (\<lambda>r. (if dow r = 6 then Saturday else Sunday, feature_date r, day_type r))
                     (weekend_errors today s);
          total_records = total_records_of mot_result;
          score = (if total_records > 0 then real processed / real total_records else 0);
          st0 = (if pending > 0 then WARNING else PASS);
          st1 = (if errors \<noteq> [] then WARNING else st0);
          st = (if score < 0.8 then FAIL else st1)
      in (\<lparr>records_processed = processed, quality_score = score, status = st,
           pending_day_type_remaining = pending, classification_errors = errors\<rparr>,
          day_type_branch st))"

text \<open>
  The number of missing cells of the window: the pairs of a row and a line column
  whose value is \<open>NULL\<close> or zero.
\<close>

definition missing_cells :: "date \<Rightarrow> store \<Rightarrow> nat" where
  "missing_cells today s =
     sum_list (map (\<lambda>c. length (filter (\<lambda>r. in_window today r
                        \<and> (column_value c r = None \<or> column_value c r = Some 0)) s))
                   transport_columns)"

text \<open>
  The number of anomalous cells of the window: the pairs of a row and a line column
  whose value is above the threshold of the column or negative.
\<close>

definition anomalous_cells :: "date \<Rightarrow> store \<Rightarrow> nat" where
  "anomalous_cells today s =
     sum_list (map (\<lambda>c. length (filter (\<lambda>r. in_window today r
                        \<and> (case column_value c r of
                              None \<Rightarrow> False
                            | Some v \<Rightarrow> v > anomaly_thresholds c \<or> v < 0)) s))
                   transport_columns)"

subsection \<open>The task graph\<close>

text \<open>
  The task graph of the DAG file: \<open>upstream\<close> is read off the \<open>>>\<close> lines,
  \<open>trigger_rule\<close> off the operators. A run visits the tasks in a topological order.
  A task that is a direct successor of a branch operator which ran and chose another
  task is skipped; otherwise its trigger rule decides from the states of its upstream
  tasks: \<open>all_success\<close> runs the task when all of them succeeded,
  \<open>none_failed_min_one_success\<close> when none failed and one succeeded, and a task that
  may not run is skipped (or marked upstream-failed). Whether a task that runs
  succeeds (\<open>ok\<close>) and the verdict a quality check computes (\<open>verdict\<close>) are
  parameters of the run.
\<close>

datatype task_state = No_status | Success | Skipped | Failed | Upstream_failed

datatype trigger = All_success | None_failed_min_one_success

fun upstream :: "task \<Rightarrow> task list" where
  "upstream Start_weekly_data_collection = []"
| "upstream Collect_mot_transport_data = [Start_weekly_data_collection]"
| "upstream Mot_quality_check = [Collect_mot_transport_data]"
| "upstream Collect_rain_weather_data = [Mot_quality_check]"
| "upstream Mot_quality_failed = [Mot_quality_check]"
| "upstream Rain_quality_check = [Collect_rain_weather_data]"
| "upstream Collect_day_type_data = [Rain_quality_check]"
| "upstream Rain_quality_failed = [Rain_quality_check]"
| "upstream Day_type_quality_check = [Collect_day_type_data]"
| "upstream Final_quality_validation = [Day_type_quality_check]"
| "upstream Day_type_quality_failed = [Day_type_quality_check]"
| "upstream Pipeline_success = [Final_quality_validation]"
| "upstream End_weekly_data_collection =
     [Pipeline_success, Mot_quality_failed, Rain_quality_failed, Day_type_quality_failed]"

fun trigger_rule :: "task \<Rightarrow> trigger" where
  "trigger_rule Collect_rain_weather_data = None_failed_min_one_success"
| "trigger_rule Collect_day_type_data = None_failed_min_one_success"
| "trigger_rule Final_quality_validation = None_failed_min_one_success"
| "trigger_rule Pipeline_success = None_failed_min_one_success"
| "trigger_rule End_weekly_data_collection = None_failed_min_one_success"
| "trigger_rule t = All_success"

fun branch_choice :: "(task \<Rightarrow> status) \<Rightarrow> task \<Rightarrow> task option" where
  "branch_choice verdict Mot_quality_check = Some (mot_branch (verdict Mot_quality_check))"
| "branch_choice verdict Rain_quality_check = Some (rain_branch (verdict Rain_quality_check))"
| "branch_choice verdict Day_type_quality_check =
     Some (day_type_branch (verdict Day_type_quality_check))"
| "branch_choice verdict t = None"

definition dag_order :: "task list" where
  "dag_order =
     [Start_weekly_data_collection, Collect_mot_transport_data, Mot_quality_check,
      Collect_rain_weather_data, Mot_quality_failed, Rain_quality_check,
      Collect_day_type_data, Rain_quality_failed, Day_type_quality_check,
      Final_quality_validation, Day_type_quality_failed, Pipeline_success,
      End_weekly_data_collection]"

definition upstream_failed :: "task_state list \<Rightarrow> bool" where
  "upstream_failed ups = (Failed \<in> set ups \<or> Upstream_failed \<in> set ups)"

fun trigger_eval :: "trigger \<Rightarrow> task_state list \<Rightarrow> task_state option" where
  "trigger_eval All_success ups =
     (if upstream_failed ups then Some Upstream_failed
      else if Skipped \<in> set ups then Some Skipped
      else if No_status \<in> set ups then Some No_status
      else None)"
| "trigger_eval None_failed_min_one_success ups =
     (if upstream_failed ups then Some Upstream_failed
      else if No_status \<in> set ups then Some No_status
      else if Success \<in> set ups then None
      else Some Skipped)"

definition skipped_by_branch :: "(task \<Rightarrow> status) \<Rightarrow> (task \<Rightarrow> task_state) \<Rightarrow> task \<Rightarrow> bool" where
  "skipped_by_branch verdict states t =
     list_ex (\<lambda>b. states b = Success \<and>
                  (case branch_choice verdict b of Some chosen \<Rightarrow> chosen \<noteq> t | None \<Rightarrow> False))
             (upstream t)"

definition run_task ::
    "(task \<Rightarrow> bool) \<Rightarrow> (task \<Rightarrow> status) \<Rightarrow> (task \<Rightarrow> task_state) \<Rightarrow> task \<Rightarrow> task_state" where
  "run_task ok verdict states t =
     (if skipped_by_branch verdict states t then Skipped
      else case trigger_eval (trigger_rule t) (map states (upstream t)) of
             Some st \<Rightarrow> st
           | None \<Rightarrow> if ok t then Success else Failed)"

definition dag_step ::
    "(task \<Rightarrow> bool) \<Rightarrow> (task \<Rightarrow> status) \<Rightarrow> (task \<Rightarrow> task_state) \<Rightarrow> task \<Rightarrow> task \<Rightarrow> task_state" where
  "dag_step ok verdict states t = states(t := run_task ok verdict states t)"

definition run_dag :: "(task \<Rightarrow> bool) \<Rightarrow> (task \<Rightarrow> status) \<Rightarrow> task \<Rightarrow> task_state" where
  "run_dag ok verdict = foldl (dag_step ok verdict) (\<lambda>t. No_status) dag_order"

fun topological :: "task list \<Rightarrow> bool" where
  "topological [] = True"
| "topological (t # ts) = (set (upstream t) \<inter> set (t # ts) = {} \<and> topological ts)"

definition later_than_mot :: "task list" where
  "later_than_mot = [Collect_rain_weather_data, Rain_quality_check, Collect_day_type_data,
                     Day_type_quality_check, Final_quality_validation, Pipeline_success]"

definition later_than_rain :: "task list" where
  "later_than_rain = [Collect_day_type_data, Day_type_quality_check,
                      Final_quality_validation, Pipeline_success]"

definition later_than_day_type :: "task list" where
  "later_than_day_type = [Final_quality_validation, Pipeline_success]"

subsection \<open>Transit normalisation\<close>

text \<open>
  A Python \<open>str\<close> is the list of its Unicode code points; \<open>in\<close> on strings is
  \<open>str_contains\<close>, and strings are ordered lexicographically by code point.
\<close>

type_synonym ustr = "nat list"

fun starts_with :: "ustr \<Rightarrow> ustr \<Rightarrow> bool" where
  "starts_with s [] = True"
| "starts_with [] (k # ks) = False"
| "starts_with (c # cs) (k # ks) = (c = k \<and> starts_with cs ks)"

fun str_contains :: "ustr \<Rightarrow> ustr \<Rightarrow> bool" where
  "str_contains [] kw = (kw = [])"
| "str_contains (c # cs) kw = (starts_with (c # cs) kw \<or> str_contains cs kw)"

text \<open>
  A pandas \<open>Timestamp\<close>: a calendar date and the time of day in nanoseconds. A raw
  record of the transit API after the two coercions of \<open>process_mot_data\<close>:
  \<open>rec_date\<close> is \<open>pd.to_datetime(..., errors='coerce')\<close> of the date field (\<open>None\<close> is
  \<open>NaT\<close>), \<open>rec_amount\<close> is \<open>pd.to_numeric(..., errors='coerce')\<close> of the count
  (\<open>None\<close> is \<open>NaN\<close>), \<open>rec_label\<close> is the vehicle label.
\<close>

record timestamp =
  ts_date :: date
  ts_time :: nat

definition ts_key :: "timestamp \<Rightarrow> (int \<times> int \<times> int) \<times> nat" where
  "ts_key t = (date_key (ts_date t), ts_time t)"

record raw_record =
  rec_date :: "timestamp option"
  rec_label :: ustr
  rec_amount :: "real option"

text \<open>
  The pivot table: its index (the distinct timestamps, ascending), its column labels
  (the distinct vehicle labels, ascending) and the cell of a timestamp and a label
  (the sum of the counts of their records, 0 when there is none).
\<close>

record pivot =
  pv_index :: "timestamp list"
  pv_columns :: "ustr list"
  pv_cell :: "timestamp \<Rightarrow> ustr \<Rightarrow> real"

definition date_column :: ustr where
  "date_column = [3623, 3633, 3609, 3607, 3637, 3656]"

definition valid_records :: "raw_record list \<Rightarrow> (timestamp \<times> ustr \<times> real) list" where
  "valid_records records =
     concat (map (\<lambda>r. case rec_date r of
                         None \<Rightarrow> []
                       | Some t \<Rightarrow> [(t, rec_label r,
                                     (case rec_amount r of None \<Rightarrow> 0 | Some v \<Rightarrow> v))])
                 records)"

definition pivot_table :: "(timestamp \<times> ustr \<times> real) list \<Rightarrow> pivot" where
  "pivot_table df =
     \<lparr>pv_index = sort_key ts_key (remdups (map fst df)),
      pv_columns = sort (remdups (map (\<lambda>(t, c, v). c) df)),
      pv_cell = (\<lambda>t c. sum_list (map (\<lambda>(t', c', v). v)
                                     (filter (\<lambda>(t', c', v). t' = t \<and> c' = c) df)))\<rparr>"

text \<open>
  The keyword groups \<open>line_groups\<close>, in the insertion order of the dictionary: ARL,
  BTS, blue, purple, pink, red, yellow. Each keyword is written as its code points;
  the purple group is the word for purple, the same word without its tone mark, and
  the word prefixed by the word for colour.
\<close>

definition line_groups :: "ustr list list" where
  "line_groups =
     [ [ [97, 114, 108], [65, 82, 76],
       [3626, 3640, 3623, 3619, 3619, 3603, 3616, 3641, 3617, 3636] ],
      [ [98, 116, 115], [66, 84, 83], [3621, 3641, 3585, 3615, 3641, 3585] ],
      [ [3609, 3657, 3635, 3648, 3591, 3636, 3609], [3609, 3635, 3648, 3591, 3636, 3609],
       [3609, 3657, 3634, 3648, 3591, 3636, 3609],
       [3626, 3637, 3609, 3657, 3635, 3648, 3591, 3636, 3609] ],
      [ [3617, 3656, 3623, 3591], [3617, 3623, 3591], [3626, 3637, 3617, 3656, 3623, 3591] ],
      [ [3594, 3617, 3614, 3641], [3594, 3617, 3614, 3641, 3641], [3594, 3617, 3614, 3640],
       [3626, 3637, 3594, 3617, 3614, 3641] ],
      [ [3649, 3604, 3591], [3649, 3604, 3591], [3626, 3637, 3649, 3604, 3591],
       [3594, 3634, 3609, 3648, 3617, 3639, 3629, 3591] ],
      [ [3648, 3627, 3621, 3639, 3629, 3591], [3648, 3627, 3621, 3639, 3591],
       [3626, 3637, 3648, 3627, 3621, 3639, 3629, 3591] ] ]"

text \<open>
  One pass of the merge loop over \<open>matching_cols[1:]\<close>:
  \<open>pivot_df[main_col] = pivot_df[main_col] + pivot_df[other_col]\<close> and
  \<open>pivot_df.drop(columns=[other_col])\<close>. Reading a column that is no longer in the
  frame raises \<open>KeyError\<close>.
\<close>

fun merge_others :: "ustr \<Rightarrow> ustr list \<Rightarrow> pivot \<Rightarrow> py_error + pivot" where
  "merge_others main_col [] pivot_df = Inr pivot_df"
| "merge_others main_col (other_col # rest) pivot_df =
     (if main_col \<notin> set (pv_columns pivot_df) \<or> other_col \<notin> set (pv_columns pivot_df)
      then Inl KeyError
      else merge_others main_col rest
             (pivot_df\<lparr>pv_columns := filter (\<lambda>c. c \<noteq> other_col) (pv_columns pivot_df),
                       pv_cell := (\<lambda>t c. if c = main_col
                                          then pv_cell pivot_df t main_col + pv_cell pivot_df t other_col
                                          else pv_cell pivot_df t c)\<rparr>))"

definition matching_cols :: "ustr list \<Rightarrow> ustr list \<Rightarrow> ustr list" where
  "matching_cols keywords pivot_columns =
     filter (\<lambda>col. list_ex (\<lambda>keyword. str_contains col keyword) keywords) pivot_columns"

fun merge_groups :: "ustr list list \<Rightarrow> ustr list \<Rightarrow> pivot \<Rightarrow> py_error + pivot" where
  "merge_groups [] pivot_columns pivot_df = Inr pivot_df"
| "merge_groups (keywords # groups) pivot_columns pivot_df =
     (case matching_cols keywords pivot_columns of
        main_col # other_col # rest \<Rightarrow>
          (case merge_others main_col (other_col # rest) pivot_df of
             Inl e \<Rightarrow> Inl e
           | Inr merged \<Rightarrow> merge_groups groups pivot_columns merged)
      | _ \<Rightarrow> merge_groups groups pivot_columns pivot_df)"

text \<open>\<open>vehicle_mapping\<close>, in insertion order, with the target column of each name.\<close>

definition vehicle_mapping :: "(ustr \<times> column) list" where
  "vehicle_mapping =
     [([3619, 3606, 3652, 3615, 3615, 3657, 3634, 32, 65, 82, 76], Arl),
      ([3619, 3606, 3652, 3615, 3615, 3657, 3634, 32, 66, 84, 83], Bts),
      ([3619, 3606, 3652, 3615, 3615, 3657, 3634, 3626, 3634, 3618, 3626, 3637, 3609, 3657,
        3635, 3648, 3591, 3636, 3609], Mrt_blue),
      ([3619, 3606, 3652, 3615, 3615, 3657, 3634, 3626, 3634, 3618, 3626, 3637, 3617, 3656,
        3623, 3591], Mrt_purple),
      ([3619, 3606, 3652, 3615, 3615, 3657, 3634, 3626, 3634, 3618, 3626, 3637, 3594, 3617,
        3614, 3641], Mrt_pink),
      ([3619, 3606, 3652, 3615, 3615, 3657, 3634, 3626, 3634, 3618, 3626, 3637, 3649, 3604,
        3591], Srt_red),
      ([3619, 3606, 3652, 3615, 3615, 3657, 3634, 3626, 3634, 3618, 3626, 3637, 3648, 3627,
        3621, 3639, 3629, 3591], Mrt_yellow)]"

fun target_column :: "(ustr \<times> column) list \<Rightarrow> ustr \<Rightarrow> column option" where
  "target_column [] pivot_col = None"
| "target_column ((vehicle_name, target_col) # mapping) pivot_col =
     (if str_contains pivot_col vehicle_name then Some target_col
      else target_column mapping pivot_col)"

fun set_column :: "column \<Rightarrow> real \<Rightarrow> features_row \<Rightarrow> features_row" where
  "set_column Arl v r = r\<lparr>arl := Some v\<rparr>"
| "set_column Bts v r = r\<lparr>bts := Some v\<rparr>"
| "set_column Mrt_blue v r = r\<lparr>mrt_blue := Some v\<rparr>"
| "set_column Mrt_purple v r = r\<lparr>mrt_purple := Some v\<rparr>"
| "set_column Mrt_pink v r = r\<lparr>mrt_pink := Some v\<rparr>"
| "set_column Srt_red v r = r\<lparr>srt_red := Some v\<rparr>"
| "set_column Mrt_yellow v r = r\<lparr>mrt_yellow := Some v\<rparr>"

definition fill_column :: "pivot \<Rightarrow> timestamp \<Rightarrow> ustr \<Rightarrow> features_row \<Rightarrow> features_row" where
  "fill_column pivot_df t pivot_col r =
     (case target_column vehicle_mapping pivot_col of
        None \<Rightarrow> r
      | Some target_col \<Rightarrow> set_column target_col (pv_cell pivot_df t pivot_col) r)"

definition make_record :: "pivot \<Rightarrow> timestamp \<Rightarrow> features_row" where
  "make_record pivot_df t =
     fold (fill_column pivot_df t) (pv_columns pivot_df)
       \<lparr>feature_date = ts_date t, day_type = -1, dow = weekday (ts_date t),
        rain_average = None, arl = Some 0, bts = Some 0, mrt_blue = Some 0,
        mrt_purple = Some 0, srt_red = Some 0, mrt_yellow = Some 0, mrt_pink = Some 0\<rparr>"

text \<open>
  \<open>process_mot_data\<close>: \<open>None\<close> for an empty batch and for a batch without a valid
  date. \<open>reset_index\<close> raises \<open>ValueError\<close> when a vehicle label is the name of the
  date column. The rows are sorted by \<open>feature_date\<close> at the end.
\<close>

definition process_mot_data :: "raw_record list \<Rightarrow> py_error + features_row list option" where
  "process_mot_data records =
     (if records = [] then Inr None
      else let df = valid_records records
           in if df = [] then Inr None
              else let pivot_df = pivot_table df;
                       pivot_columns = pv_columns pivot_df
                   in if date_column \<in> set pivot_columns then Inl ValueError
                      else case merge_groups line_groups pivot_columns pivot_df of
                             Inl e \<Rightarrow> Inl e
                           | Inr merged \<Rightarrow>
                               Inr (Some (sort_key (\<lambda>r. date_key (feature_date r))
                                            (map (make_record merged) (pv_index merged)))))"

subsection \<open>The transit update script\<close>

text \<open>
  \<open>get_latest_date_from_db\<close>: \<open>SELECT MAX(feature_date)\<close>, which is \<open>NULL\<close> on an empty
  table; the function returns \<open>None\<close> then. When connecting or querying raises, the
  \<open>except\<close> branch returns \<open>None\<close> as well; \<open>query_ok\<close> says whether the query goes
  through.
\<close>

definition later_date :: "features_row \<Rightarrow> date \<Rightarrow> date" where
  "later_date r d = (if date_key d < date_key (feature_date r) then feature_date r else d)"

definition get_latest_date_from_db :: "bool \<Rightarrow> store \<Rightarrow> date option" where
  "get_latest_date_from_db query_ok s =
     (if \<not> query_ok then None
      else case s of [] \<Rightarrow> None | r # rs \<Rightarrow> Some (fold later_date rs (feature_date r)))"

text \<open>
  The transit API is a parameter: for a year and a month it gives the records of the
  response, or \<open>None\<close> when the request fails or carries no result.
  \<open>fetch_mot_data_for_months\<close> collects the months that answer and returns \<open>None\<close>
  when nothing was collected.
\<close>

type_synonym mot_api = "int \<Rightarrow> int \<Rightarrow> raw_record list option"

definition fetch_mot_data_for_months :: "mot_api \<Rightarrow> int \<Rightarrow> int list \<Rightarrow> raw_record list option" where
  "fetch_mot_data_for_months api y months =
     (let all_records = concat (map (\<lambda>m. case api y m of None \<Rightarrow> [] | Some records \<Rightarrow> records)
                                    months)
      in if all_records = [] then None else Some all_records)"

definition filter_new_records :: "raw_record list \<Rightarrow> date \<Rightarrow> raw_record list" where
  "filter_new_records records since_date =
     filter (\<lambda>r. case rec_date r of
                   None \<Rightarrow> False
                 | Some t \<Rightarrow> date_key since_date < date_key (ts_date t)) records"

text \<open>The dictionary \<open>query_plan\<close> from a year to its months, in insertion order.\<close>

fun add_to_plan :: "int \<times> int \<Rightarrow> (int \<times> int list) list \<Rightarrow> (int \<times> int list) list" where
  "add_to_plan (y, m) [] = [(y, [m])]"
| "add_to_plan (y, m) ((y', ms) # plan) =
     (if y' = y then (y', ms @ [m]) # plan else (y', ms) # add_to_plan (y, m) plan)"

text \<open>
  \<open>main\<close> of \<open>mot_collecting_fucntional.py\<close>, with the current date, the API, the
  outcome of the query for the latest date and the table as parameters. The result holds the returned flag (or the exception that
  leaves \<open>main\<close>), the table afterwards and the months that were requested.
\<close>

record main_result =
  returned :: "py_error + bool"
  final_store :: store
  queries :: "(int \<times> int) list"

definition main :: "date \<Rightarrow> mot_api \<Rightarrow> bool \<Rightarrow> store \<Rightarrow> main_result" where
  "main today api query_ok s =
     (case get_latest_date_from_db query_ok s of
        None \<Rightarrow> \<lparr>returned = Inr False, final_store = s, queries = []\<rparr>
      | Some latest_date \<Rightarrow>
          let months_to_query =
                (if year latest_date = year today \<and> month latest_date = month today
                 then [(year today, month today)]
                 else sort (remdups [(year latest_date, month latest_date),
                                     (year today, month today)]));
              query_plan = fold add_to_plan months_to_query [];
              asked = concat (map (\<lambda>(y, months). map (\<lambda>m. (y, m)) months) query_plan);
              all_records = concat (map (\<lambda>(y, months).
                              case fetch_mot_data_for_months api y months of
                                None \<Rightarrow> []
                              | Some year_records \<Rightarrow> year_records) query_plan)
          in if all_records = []
             then \<lparr>returned = Inr False, final_store = s, queries = asked\<rparr>
             else let new_records = filter_new_records all_records latest_date
                  in if new_records = []
                     then \<lparr>returned = Inr True, final_store = s, queries = asked\<rparr>
                     else case process_mot_data new_records of
                            Inl e \<Rightarrow> \<lparr>returned = Inl e, final_store = s, queries = asked\<rparr>
                          | Inr None \<Rightarrow>
                              \<lparr>returned = Inr False, final_store = s, queries = asked\<rparr>
                          | Inr (Some df) \<Rightarrow>
                              if df = []
                              then \<lparr>returned = Inr False, final_store = s, queries = asked\<rparr>
                              else \<lparr>returned = Inr (fst (insert_new_data df s)),
                                    final_store = snd (insert_new_data df s),
                                    queries = asked\<rparr>)"

subsection \<open>Examples\<close>

text \<open>Example tables and runs.\<close>

definition uniform_row :: "date \<Rightarrow> int \<Rightarrow> int \<Rightarrow> real option \<Rightarrow> real option \<Rightarrow> features_row" where
  "uniform_row d t w rain v =
     \<lparr>feature_date = d, day_type = t, dow = w, rain_average = rain,
      arl = v, bts = v, mrt_blue = v, mrt_purple = v, srt_red = v,
      mrt_yellow = v, mrt_pink = v\<rparr>"

definition quality_store :: store where
  "quality_store =
     [uniform_row (mk_date 2025 10 6) (-1) 0 None (Some 0),
      (uniform_row (mk_date 2025 10 5) (-1) 6 None (Some 1000))
        \<lparr>arl := None, bts := None, mrt_blue := None\<rparr>]"

definition clean_store :: store where
  "clean_store = [uniform_row (mk_date 2025 10 6) 1 0 (Some 0) (Some 1000)]"

definition anomaly_store :: store where
  "anomaly_store =
     [(uniform_row (mk_date 2025 10 6) 1 0 (Some 0) (Some 1000))\<lparr>bts := Some 9000000\<rparr>]"

definition weekend_store :: store where
  "weekend_store =
     [uniform_row (mk_date 2025 10 4) 0 5 None (Some 1000),
      uniform_row (mk_date 2025 10 6) 0 0 None (Some 1000)]"

definition frame_store :: store where
  "frame_store =
     [uniform_row (mk_date 2025 12 31) (-1) 2 None (Some 100),
      uniform_row (mk_date 2025 12 30) 1 1 (Some 3) (Some 100)]"

definition all_ok :: "task \<Rightarrow> bool" where
  "all_ok t = True"

definition fail_at :: "task \<Rightarrow> task \<Rightarrow> status" where
  "fail_at b t = (if t = b then FAIL else PASS)"

definition purple_canonical :: ustr where
  "purple_canonical = [3619, 3606, 3652, 3615, 3615, 3657, 3634, 3626, 3634, 3618, 3626, 3637,
                       3617, 3656, 3623, 3591]"

definition purple_variant :: ustr where
  "purple_variant = [3617, 3623, 3591, 45, 3626, 3634, 3618]"

definition purple_batch :: "raw_record list" where
  "purple_batch =
     [\<lparr>rec_date = Some \<lparr>ts_date = mk_date 2025 9 4, ts_time = 0\<rparr>,
       rec_label = purple_canonical, rec_amount = Some 100\<rparr>,
      \<lparr>rec_date = Some \<lparr>ts_date = mk_date 2025 9 4, ts_time = 0\<rparr>,
       rec_label = purple_variant, rec_amount = Some 50\<rparr>]"

definition same_day_batch :: "raw_record list" where
  "same_day_batch =
     [\<lparr>rec_date = Some \<lparr>ts_date = mk_date 2025 9 4, ts_time = 0\<rparr>,
       rec_label = purple_canonical, rec_amount = Some 100\<rparr>,
      \<lparr>rec_date = Some \<lparr>ts_date = mk_date 2025 9 4, ts_time = 3600000000000\<rparr>,
       rec_label = purple_canonical, rec_amount = Some 50\<rparr>]"

definition canonical_batch :: "raw_record list" where
  "canonical_batch =
     [\<lparr>rec_date = Some \<lparr>ts_date = mk_date 2025 9 5, ts_time = 0\<rparr>,
       rec_label = purple_canonical, rec_amount = Some 100\<rparr>,
      \<lparr>rec_date = Some \<lparr>ts_date = mk_date 2025 9 4, ts_time = 0\<rparr>,
       rec_label = purple_canonical, rec_amount = Some 50\<rparr>,
      \<lparr>rec_date = None, rec_label = purple_canonical, rec_amount = Some 7\<rparr>,
      \<lparr>rec_date = Some \<lparr>ts_date = mk_date 2025 9 4, ts_time = 0\<rparr>,
       rec_label = purple_canonical, rec_amount = None\<rparr>]"

definition backfill_api :: mot_api where
  "backfill_api y m = (if y = 2025 \<and> m = 9 then Some canonical_batch else None)"

definition september_store :: store where
  "september_store = [uniform_row (mk_date 2025 9 3) 1 2 (Some 0) (Some 1000)]"

section \<open>Proved properties\<close>

lemma classify_day_types_rows:
  "classify_day_types dates H = Inr rows \<Longrightarrow> map fst rows = dates"
  by (auto simp: classify_day_types_def comp_def split: if_splits sum.splits)

text \<open>
  C2. For every date and every holiday and festival set, a date in both sets is
  classified Holiday (0), never Festival (2); the result is decided by membership in
  the holiday set, then in the festival set, and is Normal (1) otherwise.
\<close>

theorem classify_day_priority:
  "(d \<in> H \<and> d \<in> F \<longrightarrow> classify_day d H F = 0 \<and> classify_day d H F \<noteq> 2)
   \<and> classify_day d H F = (if d \<in> H then 0 else if d \<in> F then 2 else 1)"
  by (simp add: classify_day_def)

theorem classify_day_priority_witness:
  "mk_date 2025 12 31 \<in> {mk_date 2025 12 31, mk_date 2025 1 1}
   \<and> mk_date 2025 12 31 \<in> {mk_date 2025 12 31}
   \<and> classify_day (mk_date 2025 12 31) {mk_date 2025 12 31, mk_date 2025 1 1} {mk_date 2025 12 31} = 0"
  using classify_day_priority [of "mk_date 2025 12 31" "{mk_date 2025 12 31, mk_date 2025 1 1}" "{mk_date 2025 12 31}"]
  by simp

lemma days_of_month:
  "1 \<le> m \<Longrightarrow> m \<le> 12 \<Longrightarrow>
   DAYS_IN_MONTH ! nat m + (if m = 2 \<and> is_leap y then 1 else 0) \<in> {28, 29, 30, 31}"
proof -
  assume "1 \<le> m" "m \<le> 12"
  then have "m = 1 \<or> m = 2 \<or> m = 3 \<or> m = 4 \<or> m = 5 \<or> m = 6 \<or> m = 7 \<or> m = 8
      \<or> m = 9 \<or> m = 10 \<or> m = 11 \<or> m = 12"
    by arith
  then show ?thesis
    by (elim disjE) (simp_all add: DAYS_IN_MONTH_def)
qed

lemma calendar_weekday_range: "calendar_weekday y m d \<in> {0, 1, 2, 3, 4, 5, 6}"
proof -
  have "0 \<le> calendar_weekday y m d \<and> calendar_weekday y m d < 7"
    by (simp add: calendar_weekday_def weekday_def Let_def)
  then show ?thesis by auto
qed

lemma week_case:
  "day1 \<in> {0, 1, 2, 3, 4, 5, 6} \<Longrightarrow> ndays \<in> {28, 29, 30, 31} \<Longrightarrow>
   second_saturday_of (replicate (nat ((day1 - 0) mod 7)) 0 @ [1 .. ndays]
       @ replicate (nat ((0 - day1 - ndays) mod 7)) 0)
     = Inr (if day1 = 6 then 7 else 13 - day1)"
  apply (elim insertE emptyE)
  apply (simp_all add: second_saturday_of_def chunks.simps [of 7] py_index_def SATURDAY_def
      upto_rec_numeral Let_def)
  done

lemma get_second_saturday_body:
  "monthcalendar y m = Inr (chunks 7 days) \<Longrightarrow>
   get_second_saturday y m
     = (case second_saturday_of days of Inl e \<Rightarrow> Inl e | Inr s \<Rightarrow> Inr (mk_date y m s))"
  by (simp add: get_second_saturday_def second_saturday_of_def Let_def split: sum.splits)

lemma get_second_saturday_eq:
  assumes "1 \<le> m" "m \<le> 12"
  shows "get_second_saturday y m
     = Inr (mk_date y m (if calendar_weekday y m 1 = 6 then 7
                         else 13 - calendar_weekday y m 1))"
proof -
  let ?day1 = "calendar_weekday y m 1"
  let ?ndays = "DAYS_IN_MONTH ! nat m + (if m = 2 \<and> is_leap y then 1 else 0)"
  let ?days = "replicate (nat ((?day1 - 0) mod 7)) 0 @ [1 .. ?ndays]
       @ replicate (nat ((0 - ?day1 - ?ndays) mod 7)) 0"
  from assms have "monthcalendar y m = Inr (chunks 7 ?days)"
    by (simp add: monthcalendar_def itermonthdays_def monthrange_def)
  then have "get_second_saturday y m
     = (case second_saturday_of ?days of Inl e \<Rightarrow> Inl e | Inr s \<Rightarrow> Inr (mk_date y m s))"
    by (rule get_second_saturday_body)
  also have "second_saturday_of ?days = Inr (if ?day1 = 6 then 7 else 13 - ?day1)"
    using calendar_weekday_range days_of_month [OF assms] by (rule week_case)
  finally show ?thesis by simp
qed

lemma weekday_shift:
  "weekday (mk_date y m d) = (weekday (mk_date y m 1) + d - 1) mod 7"
proof -
  define c where "c = days_before_year y + days_before_month y m"
  have "((c + 7) mod 7 + d - 1) mod 7 = ((c + 7) mod 7 + (d - 1)) mod 7"
    by (simp add: algebra_simps)
  also have "\<dots> = ((c + 7) + (d - 1)) mod 7"
    by (rule mod_add_left_eq)
  also have "\<dots> = (c + d + 6) mod 7"
    by (simp add: algebra_simps)
  finally have "(c + d + 6) mod 7 = ((c + 7) mod 7 + d - 1) mod 7"
    by simp
  moreover have "weekday (mk_date y m d) = (c + d + 6) mod 7"
    by (simp add: weekday_def toordinal_def ymd2ord_def mk_date_def c_def)
  moreover have "weekday (mk_date y m 1) = (c + 7) mod 7"
    by (simp add: weekday_def toordinal_def ymd2ord_def mk_date_def c_def algebra_simps)
  ultimately show ?thesis by simp
qed

lemma days_in_month_range:
  "1 \<le> m \<Longrightarrow> m \<le> 12 \<Longrightarrow> days_in_month y m \<in> {28, 29, 30, 31}"
proof -
  assume "1 \<le> m" "m \<le> 12"
  then have "m = 1 \<or> m = 2 \<or> m = 3 \<or> m = 4 \<or> m = 5 \<or> m = 6 \<or> m = 7 \<or> m = 8
      \<or> m = 9 \<or> m = 10 \<or> m = 11 \<or> m = 12"
    by arith
  then show ?thesis
    by (elim disjE) (simp_all add: DAYS_IN_MONTH_def days_in_month_def)
qed

lemma saturdays_case:
  "w \<in> {0, 1, 2, 3, 4, 5, 6} \<Longrightarrow> n \<in> {28, 29, 30, 31} \<Longrightarrow>
   py_index (filter (\<lambda>d. (w + d - 1) mod 7 = 5) [1 .. n]) 1
     = Inr (if w = 6 then 14 else 13 - w)"
  apply (elim insertE emptyE)
  apply (simp_all add: py_index_def upto_rec1 [of 1])
  done

lemma weekday_range7: "weekday d \<in> {0, 1, 2, 3, 4, 5, 6}"
proof -
  have "0 \<le> weekday d \<and> weekday d < 7"
    by (simp add: weekday_def)
  then show ?thesis by auto
qed

lemma second_saturday_spec_eq:
  assumes "1 \<le> m" "m \<le> 12"
  shows "second_saturday_spec y m
     = Inr (mk_date y m (if weekday (mk_date y m 1) = 6 then 14
                         else 13 - weekday (mk_date y m 1)))"
proof -
  have "saturdays_of_month y m
      = filter (\<lambda>d. (weekday (mk_date y m 1) + d - 1) mod 7 = 5) [1 .. days_in_month y m]"
    unfolding saturdays_of_month_def by (subst weekday_shift) simp
  with saturdays_case [OF weekday_range7 days_in_month_range [OF assms]]
  show ?thesis
    by (simp add: second_saturday_spec_def)
qed

text \<open>
  For a year in 1..9999 and a month in 1..12, \<open>get_second_saturday\<close> returns the second
  Saturday of the month exactly when the month does not start on a Sunday; when it
  does, the function returns the 7th, the first Saturday.
\<close>

lemma get_second_saturday_agrees_iff:
  assumes "1 \<le> y" "y \<le> 9999" "1 \<le> m" "m \<le> 12"
  shows "(get_second_saturday y m = second_saturday_spec y m)
          = (weekday (mk_date y m 1) \<noteq> 6)"
proof -
  from assms(1,2) have "calendar_weekday y m 1 = weekday (mk_date y m 1)"
    by (simp add: calendar_weekday_def)
  with get_second_saturday_eq [OF assms(3,4)] second_saturday_spec_eq [OF assms(3,4)]
  show ?thesis
    by (simp add: mk_date_def)
qed

lemma upsert_row_alt:
  "upsert_row r s =
     (if feature_date r \<in> feature_date ` set s
      then map (\<lambda>x. if feature_date x = feature_date r then r else x) s
      else s @ [r])"
proof -
  have "x\<lparr>day_type := day_type r, dow := dow r, rain_average := rain_average r,
          arl := arl r, bts := bts r, mrt_blue := mrt_blue r,
          mrt_purple := mrt_purple r, srt_red := srt_red r,
          mrt_yellow := mrt_yellow r, mrt_pink := mrt_pink r\<rparr> = r"
    if "feature_date x = feature_date r" for x :: features_row
    using that by (cases x, cases r) simp
  then show ?thesis
    unfolding upsert_row_def by (auto intro!: map_cong)
qed

lemma dates_upsert_row:
  "feature_date ` set (upsert_row r s) = insert (feature_date r) (feature_date ` set s)"
  by (auto simp: upsert_row_alt image_iff split: if_splits)

lemma dates_fold_upsert:
  "feature_date ` set (fold upsert_row B s) = feature_date ` set B \<union> feature_date ` set s"
  by (induction B arbitrary: s) (auto simp: dates_upsert_row)

lemma latest_None: "latest B d = None \<longleftrightarrow> d \<notin> feature_date ` set B"
  by (induction B) (auto split: option.splits)

lemma dates_replace:
  "feature_date ` set (map (\<lambda>x. if feature_date x = feature_date r then r else x) s)
     = feature_date ` set s"
  by (induction s) auto

lemma fold_upsert_present:
  "feature_date ` set B \<subseteq> feature_date ` set s \<Longrightarrow>
   fold upsert_row B s =
     map (\<lambda>x. case latest B (feature_date x) of Some q \<Rightarrow> q | None \<Rightarrow> x) s"
proof (induction B arbitrary: s)
  case Nil
  then show ?case by simp
next
  case (Cons r rs)
  let ?s1 = "map (\<lambda>x. if feature_date x = feature_date r then r else x) s"
  have s1: "upsert_row r s = ?s1"
    using Cons.prems by (simp add: upsert_row_alt)
  have "feature_date ` set ?s1 = feature_date ` set s"
    by (rule dates_replace)
  with Cons.prems have "feature_date ` set rs \<subseteq> feature_date ` set ?s1"
    by auto
  from Cons.IH [OF this] s1 show ?case
    by (auto split: option.splits)
qed

lemma in_upsert_row: "x \<in> set (upsert_row r s) \<Longrightarrow> x = r \<or> x \<in> set s"
  by (auto simp: upsert_row_alt split: if_splits)

lemma in_upsert_row_same:
  "x \<in> set (upsert_row r s) \<Longrightarrow> feature_date x = feature_date r \<Longrightarrow> x = r"
  by (auto simp: upsert_row_alt image_iff split: if_splits)

lemma in_fold_upsert: "x \<in> set (fold upsert_row B s) \<Longrightarrow> x \<in> set B \<or> x \<in> set s"
  by (induction B arbitrary: s) (auto dest: in_upsert_row)

lemma fold_upsert_latest:
  "x \<in> set (fold upsert_row B s) \<Longrightarrow> latest B (feature_date x) = Some q \<Longrightarrow> x = q"
proof (induction B arbitrary: s)
  case Nil
  then show ?case by simp
next
  case (Cons r rs)
  show ?case
  proof (cases "latest rs (feature_date x)")
    case (Some q')
    with Cons.prems have "q = q'" by simp
    with Cons.IH [of "upsert_row r s"] Cons.prems(1) Some show ?thesis by simp
  next
    case None
    with Cons.prems have r: "feature_date r = feature_date x" "q = r"
      by (auto split: if_splits)
    from None have "feature_date x \<notin> feature_date ` set rs"
      by (simp add: latest_None)
    then have "x \<notin> set rs" by auto
    with Cons.prems(1) in_fold_upsert [of x rs "upsert_row r s"]
    have "x \<in> set (upsert_row r s)" by simp
    with r show ?thesis by (simp add: in_upsert_row_same)
  qed
qed

lemma fold_upsert_idem:
  "fold upsert_row B (fold upsert_row B s) = fold upsert_row B s"
proof -
  let ?s' = "fold upsert_row B s"
  have "feature_date ` set B \<subseteq> feature_date ` set ?s'"
    by (simp add: dates_fold_upsert)
  then have "fold upsert_row B ?s' =
     map (\<lambda>x. case latest B (feature_date x) of Some q \<Rightarrow> q | None \<Rightarrow> x) ?s'"
    by (rule fold_upsert_present)
  also have "\<dots> = ?s'"
    by (rule map_idI) (auto split: option.splits dest: fold_upsert_latest)
  finally show ?thesis .
qed

lemma concat_chunks: "0 < n \<Longrightarrow> concat (chunks n xs) = xs"
proof (induction n xs rule: chunks.induct)
  case (1 n xs)
  then show ?case
    by (subst chunks.simps) auto
qed

lemma execute_values_eq:
  "execute_values pages s =
     (if \<forall>p \<in> set pages. distinct (map feature_date p)
      then Inr (fold upsert_row (concat pages) s) else Inl CardinalityViolation)"
  by (induction pages arbitrary: s) (auto simp: execute_upsert_def)

lemma insert_new_data_idem:
  "snd (insert_new_data B (snd (insert_new_data B S))) = snd (insert_new_data B S)"
  by (simp add: insert_new_data_def Let_def execute_values_eq concat_chunks fold_upsert_idem)

lemma day_type_loop_map: "fst (day_type_loop B s n) = map (day_type_steps B) s"
  by (induction B s n rule: day_type_loop.induct) (simp_all add: day_type_steps_def Let_def)

lemma rain_loop_map: "fst (rain_loop B s n) = map (rain_steps B) s"
  by (induction B s n rule: rain_loop.induct) (simp_all add: rain_steps_def Let_def)

lemma day_type_steps_settled: "day_type x \<noteq> -1 \<Longrightarrow> day_type_steps B x = x"
  by (induction B) (auto simp: day_type_steps_def sql_update_day_type_def)

lemma day_type_steps_pending: "day_type (day_type_steps B x) = -1 \<Longrightarrow> day_type_steps B x = x"
proof (induction B arbitrary: x)
  case Nil
  then show ?case by (simp add: day_type_steps_def)
next
  case (Cons b bs)
  obtain d t where b: "b = (d, t)" by (cases b)
  let ?y = "sql_update_day_type t d x"
  from Cons.prems b have "day_type (day_type_steps bs ?y) = -1"
    by (simp add: day_type_steps_def)
  then have eq: "day_type_steps bs ?y = ?y" by (rule Cons.IH)
  with \<open>day_type (day_type_steps bs ?y) = -1\<close> have "day_type ?y = -1" by simp
  then have "?y = x"
    by (auto simp: sql_update_day_type_def split: if_splits)
  with eq b show ?case by (simp add: day_type_steps_def)
qed

lemma day_type_steps_idem: "day_type_steps B (day_type_steps B x) = day_type_steps B x"
proof (cases "day_type (day_type_steps B x) = -1")
  case True
  then have "day_type_steps B x = x" by (rule day_type_steps_pending)
  then show ?thesis by simp
next
  case False
  then show ?thesis by (rule day_type_steps_settled)
qed

lemma rain_steps_settled: "rain_average x \<noteq> None \<Longrightarrow> rain_steps B x = x"
  by (induction B) (auto simp: rain_steps_def sql_update_rain_def)

lemma rain_steps_pending: "rain_average (rain_steps B x) = None \<Longrightarrow> rain_steps B x = x"
proof (induction B arbitrary: x)
  case Nil
  then show ?case by (simp add: rain_steps_def)
next
  case (Cons b bs)
  obtain d v where b: "b = (d, v)" by (cases b)
  let ?y = "sql_update_rain v d x"
  from Cons.prems b have "rain_average (rain_steps bs ?y) = None"
    by (simp add: rain_steps_def)
  then have eq: "rain_steps bs ?y = ?y" by (rule Cons.IH)
  with \<open>rain_average (rain_steps bs ?y) = None\<close> have "rain_average ?y = None" by simp
  then have "?y = x"
    by (auto simp: sql_update_rain_def split: if_splits)
  with eq b show ?case by (simp add: rain_steps_def)
qed

lemma rain_steps_idem: "rain_steps B (rain_steps B x) = rain_steps B x"
proof (cases "rain_average (rain_steps B x) = None")
  case True
  then have "rain_steps B x = x" by (rule rain_steps_pending)
  then show ?thesis by simp
next
  case False
  then show ?thesis by (rule rain_steps_settled)
qed

lemma update_day_type_idem:
  "snd (update_day_type_in_db D (snd (update_day_type_in_db D S))) = snd (update_day_type_in_db D S)"
  by (simp add: update_day_type_in_db_def day_type_loop_map day_type_steps_idem)

lemma update_rain_idem:
  "snd (update_rain_average_in_db R (snd (update_rain_average_in_db R S))) = snd (update_rain_average_in_db R S)"
  by (simp add: update_rain_average_in_db_def rain_loop_map rain_steps_idem)

lemma day_type_steps_other: "(day_type_steps B x)\<lparr>day_type := t\<rparr> = x\<lparr>day_type := t\<rparr>"
  by (induction B arbitrary: x) (auto simp: day_type_steps_def sql_update_day_type_def)

lemma day_type_steps_frame: "(day_type_steps B x)\<lparr>day_type := day_type x\<rparr> = x"
  by (simp add: day_type_steps_other)

lemma rain_steps_other: "(rain_steps B x)\<lparr>rain_average := v\<rparr> = x\<lparr>rain_average := v\<rparr>"
  by (induction B arbitrary: x) (auto simp: rain_steps_def sql_update_rain_def)

lemma rain_steps_frame: "(rain_steps B x)\<lparr>rain_average := rain_average x\<rparr> = x"
  by (simp add: rain_steps_other)

text \<open>
  C6. For every batch and every table, writing the batch twice leaves the table that
  writing it once leaves: for the unconditional upsert of \<open>insert_new_data\<close>, for the
  rain update guarded by \<open>rain_average IS NULL\<close> and for the day-type update guarded by
  \<open>day_type = -1\<close>.
\<close>

theorem upsert_idempotent:
  "snd (insert_new_data B (snd (insert_new_data B S))) = snd (insert_new_data B S)
   \<and> snd (update_rain_average_in_db R (snd (update_rain_average_in_db R S)))
       = snd (update_rain_average_in_db R S)
   \<and> snd (update_day_type_in_db D (snd (update_day_type_in_db D S)))
       = snd (update_day_type_in_db D S)"
  by (simp only: insert_new_data_idem update_rain_idem update_day_type_idem)

text \<open>
  C7. The day-type update keeps the number and order of rows and changes at most the
  field \<open>day_type\<close> of a row, and nothing at all on a row whose \<open>day_type\<close> is not -1;
  the rain update changes at most the field \<open>rain_average\<close>, and nothing at all on a
  row whose \<open>rain_average\<close> is not \<open>NULL\<close>.
\<close>

theorem placeholder_updates_frame:
  "length (snd (update_day_type_in_db D S)) = length S
   \<and> length (snd (update_rain_average_in_db R S)) = length S
   \<and> (\<forall>i < length S.
        (snd (update_day_type_in_db D S) ! i)\<lparr>day_type := day_type (S ! i)\<rparr> = S ! i
        \<and> (day_type (S ! i) \<noteq> -1 \<longrightarrow> snd (update_day_type_in_db D S) ! i = S ! i)
        \<and> (snd (update_rain_average_in_db R S) ! i)\<lparr>rain_average := rain_average (S ! i)\<rparr> = S ! i
        \<and> (rain_average (S ! i) \<noteq> None \<longrightarrow> snd (update_rain_average_in_db R S) ! i = S ! i))"
  by (simp add: update_day_type_in_db_def update_rain_average_in_db_def day_type_loop_map
      rain_loop_map day_type_steps_frame rain_steps_frame day_type_steps_settled rain_steps_settled)

lemma count_null_or_zero:
  "length (filter (\<lambda>r. in_window today r
              \<and> (column_value c r = None \<or> column_value c r = Some 0)) s)
   = length (filter (\<lambda>r. in_window today r \<and> column_value c r = None) s)
     + length (filter (\<lambda>r. in_window today r \<and> column_value c r = Some 0) s)"
  by (induction s) auto

lemma sort_key_empty: "sort_key f xs = [] \<longleftrightarrow> xs = []"
  by (metis length_0_conv length_sort)

lemma column_issues_count:
  "sum_list (map (\<lambda>(c, dates). length dates) (column_issues today s c))
     = length (filter (\<lambda>r. in_window today r
                        \<and> (column_value c r = None \<or> column_value c r = Some 0)) s)"
  by (simp add: count_null_or_zero column_issues_def order_by_feature_date_def Let_def sort_key_empty)

lemma total_missing_cells:
  "sum_list (map (\<lambda>(c, dates). length dates) (concat (map (column_issues today s) cs)))
     = sum_list (map (\<lambda>c. length (filter (\<lambda>r. in_window today r
                        \<and> (column_value c r = None \<or> column_value c r = Some 0)) s)) cs)"
  by (induction cs) (simp_all add: column_issues_count)

lemma column_anomalies_count:
  "length (column_anomalies today s c)
     = length (filter (\<lambda>r. in_window today r
                        \<and> (case column_value c r of
                              None \<Rightarrow> False
                            | Some v \<Rightarrow> v > anomaly_thresholds c \<or> v < 0)) s)"
  by (induction s) (auto simp: column_anomalies_def Let_def split: option.splits)

lemma total_anomalous_cells:
  "length (concat (map (column_anomalies today s) cs))
     = sum_list (map (\<lambda>c. length (filter (\<lambda>r. in_window today r
                        \<and> (case column_value c r of
                              None \<Rightarrow> False
                            | Some v \<Rightarrow> v > anomaly_thresholds c \<or> v < 0)) s)) cs)"
  by (induction cs) (simp_all add: column_anomalies_count)

text \<open>
  C4. The transit check over 7 days and 7 line columns gives the score
  \<open>max 0 ((49 - missing) / 49)\<close>, where \<open>missing\<close> is the number of cells of the window
  that are \<open>NULL\<close> or zero. The report lists one anomaly for each cell of the window that
  is above its threshold or negative. The verdict is Fail exactly when the score is
  below 0.8, else Warning when the window has an anomalous or a missing cell, else
  Pass. With exactly 10 missing cells the score is 39/49 and the verdict is Fail.
\<close>

theorem mot_quality_score_verdict:
  "quality_score (fst (check_mot_data_quality today s))
      = max 0 ((49 - real (missing_cells today s)) / 49)
   \<and> status (fst (check_mot_data_quality today s))
      = (if quality_score (fst (check_mot_data_quality today s)) < 0.8 then FAIL
         else if anomalies (fst (check_mot_data_quality today s)) \<noteq> []
                 \<or> missing_cells today s > 0 then WARNING
         else PASS)
   \<and> (missing_cells today s = 10 \<longrightarrow>
        quality_score (fst (check_mot_data_quality today s)) = 39 / 49
        \<and> status (fst (check_mot_data_quality today s)) = FAIL)
   \<and> length (anomalies (fst (check_mot_data_quality today s))) = anomalous_cells today s
   \<and> status (fst (check_mot_data_quality today s))
      = (if quality_score (fst (check_mot_data_quality today s)) < 0.8 then FAIL
         else if anomalous_cells today s > 0 \<or> missing_cells today s > 0 then WARNING
         else PASS)"
proof -
  let ?rep = "fst (check_mot_data_quality today s)"
  have tm: "sum_list (map (\<lambda>(c, dates). length dates)
              (concat (map (column_issues today s) transport_columns)))
            = missing_cells today s"
    by (simp only: total_missing_cells missing_cells_def)
  have n: "length transport_columns = 7"
    by (simp add: transport_columns_def)
  have q: "quality_score ?rep = max 0 ((49 - real (missing_cells today s)) / 49)"
    by (simp add: check_mot_data_quality_def Let_def tm n)
  have st: "status ?rep
      = (if quality_score ?rep < 0.8 then FAIL
         else if anomalies ?rep \<noteq> [] \<or> missing_cells today s > 0 then WARNING
         else PASS)"
    by (simp add: check_mot_data_quality_def Let_def tm n)
  have ten: "missing_cells today s = 10 \<longrightarrow>
        quality_score ?rep = 39 / 49 \<and> status ?rep = FAIL"
    using q st by simp
  have "anomalies ?rep = concat (map (column_anomalies today s) transport_columns)"
    by (simp add: check_mot_data_quality_def Let_def)
  then have len: "length (anomalies ?rep) = anomalous_cells today s"
    by (simp only: total_anomalous_cells anomalous_cells_def)
  then have "(anomalies ?rep \<noteq> []) = (anomalous_cells today s > 0)"
    by (cases "anomalies ?rep") auto
  with st have st2: "status ?rep
      = (if quality_score ?rep < 0.8 then FAIL
         else if anomalous_cells today s > 0 \<or> missing_cells today s > 0 then WARNING
         else PASS)"
    by simp
  show ?thesis
    by (intro conjI q st ten len st2)
qed

lemma foldl_dag_step_other:
  "t \<notin> set ts \<Longrightarrow> foldl (dag_step ok verdict) st ts t = st t"
  by (induction ts arbitrary: st) (auto simp: dag_step_def)

lemma run_task_cong:
  "(\<And>u. u \<in> set (upstream t) \<Longrightarrow> st u = st' u) \<Longrightarrow>
   run_task ok verdict st t = run_task ok verdict st' t"
proof -
  assume eq: "\<And>u. u \<in> set (upstream t) \<Longrightarrow> st u = st' u"
  then have m: "map st (upstream t) = map st' (upstream t)"
    by simp
  from eq have sk: "skipped_by_branch verdict st t = skipped_by_branch verdict st' t"
    by (auto simp: skipped_by_branch_def list_ex_iff)
  show ?thesis
    unfolding run_task_def by (simp only: m sk)
qed

lemma foldl_dag_step_fix:
  "distinct ts \<Longrightarrow> topological ts \<Longrightarrow> t \<in> set ts \<Longrightarrow>
   foldl (dag_step ok verdict) st ts t
     = run_task ok verdict (foldl (dag_step ok verdict) st ts) t"
proof (induction ts arbitrary: st)
  case Nil
  then show ?case by simp
next
  case (Cons a rest)
  show ?case
  proof (cases "t = a")
    case True
    with Cons.prems have notin: "a \<notin> set rest" by simp
    have final_a: "foldl (dag_step ok verdict) st (a # rest) a = run_task ok verdict st a"
      using notin by (simp add: foldl_dag_step_other) (simp add: dag_step_def)
    have "run_task ok verdict (foldl (dag_step ok verdict) st (a # rest)) a
            = run_task ok verdict st a"
    proof (rule run_task_cong)
      fix u assume u: "u \<in> set (upstream a)"
      with Cons.prems(2) have "u \<noteq> a" "u \<notin> set rest" by auto
      then show "foldl (dag_step ok verdict) st (a # rest) u = st u"
        by (simp add: foldl_dag_step_other) (simp add: dag_step_def)
    qed
    with final_a True show ?thesis by simp
  next
    case False
    with Cons.prems have "distinct rest" "topological rest" "t \<in> set rest" by auto
    from Cons.IH [OF this] show ?thesis by simp
  qed
qed

lemma run_dag_fix: "run_dag ok verdict t = run_task ok verdict (run_dag ok verdict) t"
proof -
  have "distinct dag_order" "topological dag_order"
    by (simp_all add: dag_order_def)
  moreover have "t \<in> set dag_order"
    by (cases t) (simp_all add: dag_order_def)
  ultimately show ?thesis
    unfolding run_dag_def by (rule foldl_dag_step_fix)
qed

lemmas run_task_simps = run_task_def skipped_by_branch_def upstream_failed_def

lemma skip_rain_check:
  "run_dag ok verdict Collect_rain_weather_data = Skipped \<Longrightarrow>
   run_dag ok verdict Rain_quality_check = Skipped"
  by (subst run_dag_fix) (simp add: run_task_simps)

lemma skip_collect_day_type:
  "run_dag ok verdict Rain_quality_check = Skipped \<Longrightarrow>
   run_dag ok verdict Collect_day_type_data = Skipped"
  by (subst run_dag_fix) (simp add: run_task_simps)

lemma skip_day_type_check:
  "run_dag ok verdict Collect_day_type_data = Skipped \<Longrightarrow>
   run_dag ok verdict Day_type_quality_check = Skipped"
  by (subst run_dag_fix) (simp add: run_task_simps)

lemma skip_final:
  "run_dag ok verdict Day_type_quality_check = Skipped \<Longrightarrow>
   run_dag ok verdict Final_quality_validation = Skipped"
  by (subst run_dag_fix) (simp add: run_task_simps)

lemma skip_pipeline_success:
  "run_dag ok verdict Final_quality_validation = Skipped \<Longrightarrow>
   run_dag ok verdict Pipeline_success = Skipped"
  by (subst run_dag_fix) (simp add: run_task_simps)

lemma mot_fail_branch:
  "run_dag ok verdict Mot_quality_check = Success \<Longrightarrow> verdict Mot_quality_check = FAIL \<Longrightarrow>
   run_dag ok verdict Collect_rain_weather_data = Skipped
   \<and> run_dag ok verdict Mot_quality_failed = (if ok Mot_quality_failed then Success else Failed)"
  by (intro conjI; subst run_dag_fix) (simp_all add: run_task_simps mot_branch_def)

lemma rain_fail_branch:
  "run_dag ok verdict Rain_quality_check = Success \<Longrightarrow> verdict Rain_quality_check = FAIL \<Longrightarrow>
   run_dag ok verdict Collect_day_type_data = Skipped
   \<and> run_dag ok verdict Rain_quality_failed = (if ok Rain_quality_failed then Success else Failed)"
  by (intro conjI; subst run_dag_fix) (simp_all add: run_task_simps rain_branch_def)

lemma day_type_fail_branch:
  "run_dag ok verdict Day_type_quality_check = Success \<Longrightarrow>
   verdict Day_type_quality_check = FAIL \<Longrightarrow>
   run_dag ok verdict Final_quality_validation = Skipped
   \<and> run_dag ok verdict Day_type_quality_failed
       = (if ok Day_type_quality_failed then Success else Failed)"
  by (intro conjI; subst run_dag_fix) (simp_all add: run_task_simps day_type_branch_def)

lemma mot_continue_branch:
  "run_dag ok verdict Mot_quality_check = Success \<Longrightarrow> verdict Mot_quality_check \<noteq> FAIL \<Longrightarrow>
   run_dag ok verdict Mot_quality_failed = Skipped
   \<and> run_dag ok verdict Collect_rain_weather_data
       = (if ok Collect_rain_weather_data then Success else Failed)"
  by (intro conjI; subst run_dag_fix) (simp_all add: run_task_simps mot_branch_def)

lemma rain_continue_branch:
  "run_dag ok verdict Rain_quality_check = Success \<Longrightarrow> verdict Rain_quality_check \<noteq> FAIL \<Longrightarrow>
   run_dag ok verdict Rain_quality_failed = Skipped
   \<and> run_dag ok verdict Collect_day_type_data
       = (if ok Collect_day_type_data then Success else Failed)"
  by (intro conjI; subst run_dag_fix) (simp_all add: run_task_simps rain_branch_def)

lemma day_type_continue_branch:
  "run_dag ok verdict Day_type_quality_check = Success \<Longrightarrow>
   verdict Day_type_quality_check \<noteq> FAIL \<Longrightarrow>
   run_dag ok verdict Day_type_quality_failed = Skipped
   \<and> run_dag ok verdict Final_quality_validation
       = (if ok Final_quality_validation then Success else Failed)"
  by (intro conjI; subst run_dag_fix) (simp_all add: run_task_simps day_type_branch_def)

lemma mot_fail_stops:
  assumes "run_dag ok verdict Mot_quality_check = Success" "verdict Mot_quality_check = FAIL"
    and "t \<in> set later_than_mot"
  shows "run_dag ok verdict t = Skipped"
proof -
  from assms(1,2) have 1: "run_dag ok verdict Collect_rain_weather_data = Skipped"
    by (simp add: mot_fail_branch)
  then have 2: "run_dag ok verdict Rain_quality_check = Skipped" by (rule skip_rain_check)
  then have 3: "run_dag ok verdict Collect_day_type_data = Skipped" by (rule skip_collect_day_type)
  then have 4: "run_dag ok verdict Day_type_quality_check = Skipped" by (rule skip_day_type_check)
  then have 5: "run_dag ok verdict Final_quality_validation = Skipped" by (rule skip_final)
  then have 6: "run_dag ok verdict Pipeline_success = Skipped" by (rule skip_pipeline_success)
  from assms(3) 1 2 3 4 5 6 show ?thesis
    by (auto simp: later_than_mot_def)
qed

lemma rain_fail_stops:
  assumes "run_dag ok verdict Rain_quality_check = Success" "verdict Rain_quality_check = FAIL"
    and "t \<in> set later_than_rain"
  shows "run_dag ok verdict t = Skipped"
proof -
  from assms(1,2) have 3: "run_dag ok verdict Collect_day_type_data = Skipped"
    by (simp add: rain_fail_branch)
  then have 4: "run_dag ok verdict Day_type_quality_check = Skipped" by (rule skip_day_type_check)
  then have 5: "run_dag ok verdict Final_quality_validation = Skipped" by (rule skip_final)
  then have 6: "run_dag ok verdict Pipeline_success = Skipped" by (rule skip_pipeline_success)
  from assms(3) 3 4 5 6 show ?thesis
    by (auto simp: later_than_rain_def)
qed

lemma day_type_fail_stops:
  assumes "run_dag ok verdict Day_type_quality_check = Success"
    "verdict Day_type_quality_check = FAIL" and "t \<in> set later_than_day_type"
  shows "run_dag ok verdict t = Skipped"
proof -
  from assms(1,2) have 5: "run_dag ok verdict Final_quality_validation = Skipped"
    by (simp add: day_type_fail_branch)
  then have 6: "run_dag ok verdict Pipeline_success = Skipped" by (rule skip_pipeline_success)
  from assms(3) 5 6 show ?thesis
    by (auto simp: later_than_day_type_def)
qed

lemma merge_others_frame:
  "merge_others main_col others df = Inr df' \<Longrightarrow>
   pv_index df' = pv_index df \<and> set (pv_columns df') \<subseteq> set (pv_columns df)"
proof (induction others arbitrary: df)
  case Nil
  then show ?case by simp
next
  case (Cons other_col rest)
  then show ?case
    by (fastforce split: if_splits)
qed

lemma merge_groups_frame:
  "merge_groups groups pivot_columns df = Inr df' \<Longrightarrow>
   pv_index df' = pv_index df \<and> set (pv_columns df') \<subseteq> set (pv_columns df)"
proof (induction groups arbitrary: df)
  case Nil
  then show ?case by simp
next
  case (Cons kws groups)
  show ?case
  proof (cases "matching_cols kws pivot_columns")
    case Nil
    with Cons show ?thesis by simp
  next
    case one: (Cons main_col others)
    show ?thesis
    proof (cases others)
      case Nil
      with one Cons show ?thesis by simp
    next
      case two: (Cons other_col rest)
      with one Cons.prems obtain merged where
        m: "merge_others main_col (other_col # rest) df = Inr merged"
        and g: "merge_groups groups pivot_columns merged = Inr df'"
        by (auto split: sum.splits)
      from merge_others_frame [OF m] Cons.IH [OF g] show ?thesis by auto
    qed
  qed
qed

lemma column_value_set_column:
  "column_value c (set_column c' v r) = (if c = c' then Some v else column_value c r)"
  by (cases c; cases c') simp_all

lemma set_column_frame:
  "feature_date (set_column c v r) = feature_date r"
  "day_type (set_column c v r) = day_type r"
  "dow (set_column c v r) = dow r"
  "rain_average (set_column c v r) = rain_average r"
  by (cases c; simp)+

lemma fill_column_frame:
  "feature_date (fill_column df t col r) = feature_date r"
  "day_type (fill_column df t col r) = day_type r"
  "dow (fill_column df t col r) = dow r"
  "rain_average (fill_column df t col r) = rain_average r"
  by (simp_all add: fill_column_def set_column_frame split: option.splits)

lemma fill_column_present:
  "column_value c r = Some v \<Longrightarrow> \<exists>w. column_value c (fill_column df t col r) = Some w"
  by (simp add: fill_column_def column_value_set_column split: option.splits)

lemma fill_column_other:
  "target_column vehicle_mapping col \<noteq> Some c \<Longrightarrow>
   column_value c (fill_column df t col r) = column_value c r"
  by (auto simp: fill_column_def column_value_set_column split: option.splits)

lemma fold_fill_frame:
  "feature_date (fold (fill_column df t) cols r) = feature_date r
   \<and> day_type (fold (fill_column df t) cols r) = day_type r
   \<and> dow (fold (fill_column df t) cols r) = dow r
   \<and> rain_average (fold (fill_column df t) cols r) = rain_average r"
  by (induction cols arbitrary: r) (simp_all add: fill_column_frame)

lemma fold_fill_present:
  "column_value c r = Some v \<Longrightarrow> \<exists>w. column_value c (fold (fill_column df t) cols r) = Some w"
proof (induction cols arbitrary: r v)
  case Nil
  then show ?case by simp
next
  case (Cons col cols)
  from fill_column_present [OF Cons.prems] obtain w
    where "column_value c (fill_column df t col r) = Some w" ..
  from Cons.IH [OF this] show ?case by simp
qed

lemma fold_fill_other:
  "\<forall>col \<in> set cols. target_column vehicle_mapping col \<noteq> Some c \<Longrightarrow>
   column_value c (fold (fill_column df t) cols r) = column_value c r"
  by (induction cols arbitrary: r) (simp_all add: fill_column_other)

lemma make_record_fields:
  "feature_date (make_record df t) = ts_date t"
  "day_type (make_record df t) = -1"
  "dow (make_record df t) = weekday (ts_date t)"
  "rain_average (make_record df t) = None"
  by (simp_all add: make_record_def fold_fill_frame)

lemma make_record_present: "\<exists>w. column_value c (make_record df t) = Some w"
  unfolding make_record_def by (rule fold_fill_present [where v = 0]) (cases c; simp)

lemma make_record_default:
  "\<forall>col \<in> set (pv_columns df). target_column vehicle_mapping col \<noteq> Some c \<Longrightarrow>
   column_value c (make_record df t) = Some 0"
proof -
  assume "\<forall>col \<in> set (pv_columns df). target_column vehicle_mapping col \<noteq> Some c"
  then have "column_value c (make_record df t)
      = column_value c
          \<lparr>feature_date = ts_date t, day_type = -1, dow = weekday (ts_date t),
           rain_average = None, arl = Some 0, bts = Some 0, mrt_blue = Some 0,
           mrt_purple = Some 0, srt_red = Some 0, mrt_yellow = Some 0, mrt_pink = Some 0\<rparr>"
    unfolding make_record_def by (rule fold_fill_other)
  also have "\<dots> = Some 0"
    by (cases c) simp_all
  finally show ?thesis .
qed

lemma weekday_range: "0 \<le> weekday d \<and> weekday d \<le> 6"
  by (simp add: weekday_def)

lemma process_mot_data_shape:
  assumes "process_mot_data records = Inr (Some rows)"
  obtains merged where
    "merge_groups line_groups (pv_columns (pivot_table (valid_records records)))
       (pivot_table (valid_records records)) = Inr merged"
    "rows = sort_key (\<lambda>r. date_key (feature_date r)) (map (make_record merged) (pv_index merged))"
  using assms
  by (auto simp: process_mot_data_def Let_def split: if_splits sum.splits)

lemma distinct_map_sort_key:
  "distinct (map f (sort_key k xs)) = distinct (map f xs)"
  by (simp add: distinct_map)

text \<open>
  C10. Every row that \<open>process_mot_data\<close> returns has \<open>day_type\<close> -1, no rain average,
  \<open>dow\<close> equal to the weekday of its date (Monday 0 to Sunday 6) and a value in each
  of the seven line fields, which is 0.0 for a line that no label of the batch maps to.
  The rows are in ascending order of \<open>feature_date\<close>; their dates are pairwise distinct
  when no two different timestamps of the batch fall on the same calendar day.
\<close>

theorem process_mot_data_rows:
  assumes "process_mot_data records = Inr (Some rows)"
  shows "(\<forall>r \<in> set rows. day_type r = -1 \<and> rain_average r = None
            \<and> dow r = weekday (feature_date r) \<and> 0 \<le> dow r \<and> dow r \<le> 6
            \<and> (\<forall>c. column_value c r \<noteq> None))
         \<and> sorted (map (\<lambda>r. date_key (feature_date r)) rows)
         \<and> (inj_on ts_date (fst ` set (valid_records records)) \<longrightarrow>
              distinct (map feature_date rows))
         \<and> (\<forall>c. (\<forall>(t, l, v) \<in> set (valid_records records).
                    target_column vehicle_mapping l \<noteq> Some c) \<longrightarrow>
                (\<forall>r \<in> set rows. column_value c r = Some 0))"
proof -
  let ?df = "valid_records records"
  from assms obtain merged where
    m: "merge_groups line_groups (pv_columns (pivot_table ?df)) (pivot_table ?df) = Inr merged"
    and rows: "rows = sort_key (\<lambda>r. date_key (feature_date r))
                        (map (make_record merged) (pv_index merged))"
    by (rule process_mot_data_shape)
  from merge_groups_frame [OF m] have
    idx: "pv_index merged = sort_key ts_key (remdups (map fst ?df))"
    and cols: "set (pv_columns merged) \<subseteq> (\<lambda>(t, l, v). l) ` set ?df"
    by (auto simp: pivot_table_def)
  have 1: "\<forall>r \<in> set rows. day_type r = -1 \<and> rain_average r = None
            \<and> dow r = weekday (feature_date r) \<and> 0 \<le> dow r \<and> dow r \<le> 6
            \<and> (\<forall>c. column_value c r \<noteq> None)"
    using make_record_present [of _ merged]
    by (auto simp: rows make_record_fields weekday_range)
  have 2: "sorted (map (\<lambda>r. date_key (feature_date r)) rows)"
    by (simp add: rows)
  have 3: "distinct (map feature_date rows)"
    if "inj_on ts_date (fst ` set ?df)"
  proof -
    have "map feature_date (map (make_record merged) (pv_index merged))
            = map ts_date (pv_index merged)"
      by (simp add: make_record_fields)
    moreover have "distinct (map ts_date (pv_index merged))"
      using that by (simp add: idx distinct_map)
    ultimately show ?thesis
      by (simp add: rows distinct_map_sort_key del: map_map)
  qed
  have 4: "\<forall>r \<in> set rows. column_value c r = Some 0"
    if "\<forall>(t, l, v) \<in> set ?df. target_column vehicle_mapping l \<noteq> Some c" for c
  proof -
    from that cols have
      "\<forall>col \<in> set (pv_columns merged). target_column vehicle_mapping col \<noteq> Some c"
      by auto
    then show ?thesis
      by (auto simp: rows make_record_default)
  qed
  from 1 2 3 4 show ?thesis by blast
qed

lemmas date_simps = mk_date_def toordinal_def ymd2ord_def days_before_year_def
  days_before_month_def DAYS_IN_MONTH_def is_leap_def weekday_def

text \<open>
  C3. \<open>get_second_saturday\<close> returns 2025-01-11 for January 2025, which is the second
  Saturday. For January 2023, whose first day is a Sunday, it returns 2023-01-07, the
  first Saturday of the month; the second Saturday is 2023-01-14.
\<close>

theorem second_saturday_sunday_start:
  "get_second_saturday 2023 1 = Inr (mk_date 2023 1 7)
   \<and> second_saturday_spec 2023 1 = Inr (mk_date 2023 1 14)
   \<and> get_second_saturday 2025 1 = Inr (mk_date 2025 1 11)
   \<and> second_saturday_spec 2025 1 = Inr (mk_date 2025 1 11)"
  by code_simp

theorem mot_quality_score_verdict_witness:
  "missing_cells (mk_date 2025 10 7) quality_store = 10
   \<and> quality_score (fst (check_mot_data_quality (mk_date 2025 10 7) quality_store)) = 39 / 49
   \<and> status (fst (check_mot_data_quality (mk_date 2025 10 7) quality_store)) = FAIL
   \<and> missing_cells (mk_date 2025 10 7) anomaly_store = 0
   \<and> anomalous_cells (mk_date 2025 10 7) anomaly_store = 1
   \<and> length (anomalies (fst (check_mot_data_quality (mk_date 2025 10 7) anomaly_store))) = 1
   \<and> quality_score (fst (check_mot_data_quality (mk_date 2025 10 7) anomaly_store)) = 1
   \<and> status (fst (check_mot_data_quality (mk_date 2025 10 7) anomaly_store)) = WARNING
   \<and> missing_cells (mk_date 2025 10 7) clean_store = 0
   \<and> anomalous_cells (mk_date 2025 10 7) clean_store = 0
   \<and> status (fst (check_mot_data_quality (mk_date 2025 10 7) clean_store)) = PASS"
proof -
  have m: "missing_cells (mk_date 2025 10 7) quality_store = 10"
    by (simp add: missing_cells_def quality_store_def uniform_row_def transport_columns_def
        in_window_def date_simps)
  have a: "missing_cells (mk_date 2025 10 7) anomaly_store = 0"
    "anomalous_cells (mk_date 2025 10 7) anomaly_store = 1"
    by (simp_all add: missing_cells_def anomalous_cells_def anomaly_store_def uniform_row_def
        transport_columns_def in_window_def date_simps)
  have c: "missing_cells (mk_date 2025 10 7) clean_store = 0"
    "anomalous_cells (mk_date 2025 10 7) clean_store = 0"
    by (simp_all add: missing_cells_def anomalous_cells_def clean_store_def uniform_row_def
        transport_columns_def in_window_def date_simps)
  from mot_quality_score_verdict [of "mk_date 2025 10 7" quality_store] m
  have 1: "quality_score (fst (check_mot_data_quality (mk_date 2025 10 7) quality_store)) = 39 / 49"
    "status (fst (check_mot_data_quality (mk_date 2025 10 7) quality_store)) = FAIL"
    by simp_all
  from mot_quality_score_verdict [of "mk_date 2025 10 7" anomaly_store] a
  have 2: "length (anomalies (fst (check_mot_data_quality (mk_date 2025 10 7) anomaly_store))) = 1"
    "quality_score (fst (check_mot_data_quality (mk_date 2025 10 7) anomaly_store)) = 1"
    "status (fst (check_mot_data_quality (mk_date 2025 10 7) anomaly_store)) = WARNING"
    by (auto simp: length_Suc_conv)
  from mot_quality_score_verdict [of "mk_date 2025 10 7" clean_store] c
  have 3: "status (fst (check_mot_data_quality (mk_date 2025 10 7) clean_store)) = PASS"
    by simp
  from m a c 1 2 3 show ?thesis by simp
qed

text \<open>
  C5. On a table whose \<open>dow\<close> column holds \<open>weekday()\<close> (Monday 0, Sunday 6), with a
  Saturday (2025-10-04, \<open>dow\<close> 5) and a Monday (2025-10-06, \<open>dow\<close> 0) both of day type 0,
  the day-type check records one classification error, for the Monday, and none for
  the Saturday.
\<close>

theorem weekend_check_uses_other_encoding:
  "map (\<lambda>r. weekday (feature_date r) = dow r) weekend_store = [True, True]
   \<and> map (\<lambda>r. (dow r, day_type r)) weekend_store = [(5, 0), (0, 0)]
   \<and> classification_errors
        (fst (check_day_type_data_quality (mk_date 2025 10 7) None weekend_store))
       = [(Sunday, mk_date 2025 10 6, 0)]"
  by (simp add: check_day_type_data_quality_def weekend_errors_def weekend_store_def
      uniform_row_def in_window_def date_simps Let_def)

theorem placeholder_updates_frame_witness:
  "(1::nat) < length frame_store
   \<and> day_type (frame_store ! 1) \<noteq> -1 \<and> rain_average (frame_store ! 1) \<noteq> None
   \<and> snd (update_day_type_in_db [(mk_date 2025 12 31, 2), (mk_date 2025 12 30, 0)] frame_store) ! 1
       = frame_store ! 1
   \<and> snd (update_rain_average_in_db [(mk_date 2025 12 31, 5), (mk_date 2025 12 30, 9)] frame_store) ! 1
       = frame_store ! 1
   \<and> snd (update_day_type_in_db [(mk_date 2025 12 31, 2), (mk_date 2025 12 30, 0)] frame_store) ! 0
       = (frame_store ! 0)\<lparr>day_type := 2\<rparr>
   \<and> snd (update_rain_average_in_db [(mk_date 2025 12 31, 5), (mk_date 2025 12 30, 9)] frame_store) ! 0
       = (frame_store ! 0)\<lparr>rain_average := Some 5\<rparr>"
  using placeholder_updates_frame [of "[(mk_date 2025 12 31, 2), (mk_date 2025 12 30, 0)]"
      frame_store "[(mk_date 2025 12 31, 5), (mk_date 2025 12 30, 9)]"]
  by (simp add: frame_store_def uniform_row_def update_day_type_in_db_def
      update_rain_average_in_db_def sql_update_day_type_def sql_update_rain_def mk_date_def)

text \<open>
  C8. Each branch function returns the failed terminal of its stage when the verdict
  is FAIL and the next stage otherwise. In every run, after a quality check that ran
  and computed FAIL, the failed terminal is the task that runs and every later
  collection, check and report task is skipped; after a verdict other than FAIL the
  failed terminal is skipped and the next stage runs.
\<close>

theorem quality_fail_aborts:
  "snd (check_mot_data_quality today s)
      = (if status (fst (check_mot_data_quality today s)) = FAIL
         then Mot_quality_failed else Collect_rain_weather_data)
   \<and> snd (check_rain_data_quality today mot_result s)
      = (if status (fst (check_rain_data_quality today mot_result s)) = FAIL
         then Rain_quality_failed else Collect_day_type_data)
   \<and> snd (check_day_type_data_quality today mot_result s)
      = (if status (fst (check_day_type_data_quality today mot_result s)) = FAIL
         then Day_type_quality_failed else Final_quality_validation)
   \<and> (run_dag ok verdict Mot_quality_check = Success \<and> verdict Mot_quality_check = FAIL \<longrightarrow>
        run_dag ok verdict Mot_quality_failed = (if ok Mot_quality_failed then Success else Failed)
        \<and> (\<forall>t \<in> set later_than_mot. run_dag ok verdict t = Skipped))
   \<and> (run_dag ok verdict Rain_quality_check = Success \<and> verdict Rain_quality_check = FAIL \<longrightarrow>
        run_dag ok verdict Rain_quality_failed = (if ok Rain_quality_failed then Success else Failed)
        \<and> (\<forall>t \<in> set later_than_rain. run_dag ok verdict t = Skipped))
   \<and> (run_dag ok verdict Day_type_quality_check = Success
        \<and> verdict Day_type_quality_check = FAIL \<longrightarrow>
        run_dag ok verdict Day_type_quality_failed
          = (if ok Day_type_quality_failed then Success else Failed)
        \<and> (\<forall>t \<in> set later_than_day_type. run_dag ok verdict t = Skipped))
   \<and> (run_dag ok verdict Mot_quality_check = Success \<and> verdict Mot_quality_check \<noteq> FAIL \<longrightarrow>
        run_dag ok verdict Mot_quality_failed = Skipped
        \<and> run_dag ok verdict Collect_rain_weather_data
            = (if ok Collect_rain_weather_data then Success else Failed))
   \<and> (run_dag ok verdict Rain_quality_check = Success \<and> verdict Rain_quality_check \<noteq> FAIL \<longrightarrow>
        run_dag ok verdict Rain_quality_failed = Skipped
        \<and> run_dag ok verdict Collect_day_type_data
            = (if ok Collect_day_type_data then Success else Failed))
   \<and> (run_dag ok verdict Day_type_quality_check = Success
        \<and> verdict Day_type_quality_check \<noteq> FAIL \<longrightarrow>
        run_dag ok verdict Day_type_quality_failed = Skipped
        \<and> run_dag ok verdict Final_quality_validation
            = (if ok Final_quality_validation then Success else Failed))"
proof -
  have b1: "snd (check_mot_data_quality today s)
      = (if status (fst (check_mot_data_quality today s)) = FAIL
         then Mot_quality_failed else Collect_rain_weather_data)"
    by (simp add: check_mot_data_quality_def Let_def mot_branch_def)
  have b2: "snd (check_rain_data_quality today mot_result s)
      = (if status (fst (check_rain_data_quality today mot_result s)) = FAIL
         then Rain_quality_failed else Collect_day_type_data)"
    by (simp add: check_rain_data_quality_def Let_def rain_branch_def)
  have b3: "snd (check_day_type_data_quality today mot_result s)
      = (if status (fst (check_day_type_data_quality today mot_result s)) = FAIL
         then Day_type_quality_failed else Final_quality_validation)"
    by (simp add: check_day_type_data_quality_def Let_def day_type_branch_def)
  have f1: "run_dag ok verdict Mot_quality_check = Success \<and> verdict Mot_quality_check = FAIL \<longrightarrow>
        run_dag ok verdict Mot_quality_failed = (if ok Mot_quality_failed then Success else Failed)
        \<and> (\<forall>t \<in> set later_than_mot. run_dag ok verdict t = Skipped)"
    using mot_fail_branch [of ok verdict] mot_fail_stops [of ok verdict] by blast
  have f2: "run_dag ok verdict Rain_quality_check = Success \<and> verdict Rain_quality_check = FAIL \<longrightarrow>
        run_dag ok verdict Rain_quality_failed = (if ok Rain_quality_failed then Success else Failed)
        \<and> (\<forall>t \<in> set later_than_rain. run_dag ok verdict t = Skipped)"
    using rain_fail_branch [of ok verdict] rain_fail_stops [of ok verdict] by blast
  have f3: "run_dag ok verdict Day_type_quality_check = Success
        \<and> verdict Day_type_quality_check = FAIL \<longrightarrow>
        run_dag ok verdict Day_type_quality_failed
          = (if ok Day_type_quality_failed then Success else Failed)
        \<and> (\<forall>t \<in> set later_than_day_type. run_dag ok verdict t = Skipped)"
    using day_type_fail_branch [of ok verdict] day_type_fail_stops [of ok verdict] by blast
  have c1: "run_dag ok verdict Mot_quality_check = Success \<and> verdict Mot_quality_check \<noteq> FAIL \<longrightarrow>
        run_dag ok verdict Mot_quality_failed = Skipped
        \<and> run_dag ok verdict Collect_rain_weather_data
            = (if ok Collect_rain_weather_data then Success else Failed)"
    using mot_continue_branch [of ok verdict] by blast
  have c2: "run_dag ok verdict Rain_quality_check = Success \<and> verdict Rain_quality_check \<noteq> FAIL \<longrightarrow>
        run_dag ok verdict Rain_quality_failed = Skipped
        \<and> run_dag ok verdict Collect_day_type_data
            = (if ok Collect_day_type_data then Success else Failed)"
    using rain_continue_branch [of ok verdict] by blast
  have c3: "run_dag ok verdict Day_type_quality_check = Success
        \<and> verdict Day_type_quality_check \<noteq> FAIL \<longrightarrow>
        run_dag ok verdict Day_type_quality_failed = Skipped
        \<and> run_dag ok verdict Final_quality_validation
            = (if ok Final_quality_validation then Success else Failed)"
    using day_type_continue_branch [of ok verdict] by blast
  show ?thesis
    by (intro conjI b1 b2 b3 f1 f2 f3 c1 c2 c3)
qed

theorem quality_fail_aborts_witness:
  "run_dag all_ok (fail_at Mot_quality_check) Mot_quality_check = Success
   \<and> fail_at Mot_quality_check Mot_quality_check = FAIL
   \<and> map (run_dag all_ok (fail_at Mot_quality_check)) later_than_mot
       = [Skipped, Skipped, Skipped, Skipped, Skipped, Skipped]
   \<and> run_dag all_ok (fail_at Mot_quality_check) Mot_quality_failed = Success
   \<and> run_dag all_ok (fail_at Rain_quality_check) Rain_quality_check = Success
   \<and> fail_at Rain_quality_check Rain_quality_check = FAIL
   \<and> fail_at Rain_quality_check Mot_quality_check \<noteq> FAIL
   \<and> run_dag all_ok (fail_at Rain_quality_check) Collect_rain_weather_data = Success
   \<and> map (run_dag all_ok (fail_at Rain_quality_check)) later_than_rain
       = [Skipped, Skipped, Skipped, Skipped]
   \<and> run_dag all_ok (fail_at Day_type_quality_check) Day_type_quality_check = Success
   \<and> fail_at Day_type_quality_check Day_type_quality_check = FAIL
   \<and> map (run_dag all_ok (fail_at Day_type_quality_check)) later_than_day_type
       = [Skipped, Skipped]"
proof -
  have m: "run_dag all_ok (fail_at Mot_quality_check) Mot_quality_check = Success"
    by code_simp
  have r: "run_dag all_ok (fail_at Rain_quality_check) Rain_quality_check = Success"
    "run_dag all_ok (fail_at Rain_quality_check) Mot_quality_check = Success"
    by code_simp+
  have d: "run_dag all_ok (fail_at Day_type_quality_check) Day_type_quality_check = Success"
    by code_simp
  have v: "fail_at Mot_quality_check Mot_quality_check = FAIL"
    "fail_at Rain_quality_check Rain_quality_check = FAIL"
    "fail_at Rain_quality_check Mot_quality_check \<noteq> FAIL"
    "fail_at Day_type_quality_check Day_type_quality_check = FAIL"
    by (simp_all add: fail_at_def)
  have a1: "(\<forall>t \<in> set later_than_mot. run_dag all_ok (fail_at Mot_quality_check) t = Skipped)
      \<and> run_dag all_ok (fail_at Mot_quality_check) Mot_quality_failed
          = (if all_ok Mot_quality_failed then Success else Failed)"
    using m v(1)
      quality_fail_aborts [of "mk_date 2025 10 7" quality_store None all_ok
        "fail_at Mot_quality_check"]
    by blast
  have a2: "(\<forall>t \<in> set later_than_rain. run_dag all_ok (fail_at Rain_quality_check) t = Skipped)
      \<and> run_dag all_ok (fail_at Rain_quality_check) Collect_rain_weather_data
          = (if all_ok Collect_rain_weather_data then Success else Failed)"
    using r v(2,3)
      quality_fail_aborts [of "mk_date 2025 10 7" quality_store None all_ok
        "fail_at Rain_quality_check"]
    by blast
  have a3: "\<forall>t \<in> set later_than_day_type.
      run_dag all_ok (fail_at Day_type_quality_check) t = Skipped"
    using d v(4)
      quality_fail_aborts [of "mk_date 2025 10 7" quality_store None all_ok
        "fail_at Day_type_quality_check"]
    by blast
  from a1 a2 a3 show ?thesis
    by (simp add: m r d v later_than_mot_def later_than_rain_def later_than_day_type_def
        all_ok_def)
qed

lemmas mot_eval = process_mot_data_def valid_records_def pivot_table_def line_groups_def
  matching_cols_def purple_variant_def purple_canonical_def date_column_def make_record_def
  fill_column_def vehicle_mapping_def uniform_row_def Let_def ts_key_def date_key_def
  date_simps

text \<open>
  C1. A batch with one observation of 100 under the canonical purple label and one of
  50 under the variant label (\<open>purple_canonical\<close> and \<open>purple_variant\<close>), both on
  2025-09-04, is normalised to a single row whose \<open>mrt_purple\<close> is 0.0: the merged
  column keeps the variant label, which sorts first, and no vehicle name matches it.
\<close>

theorem purple_variants_lost:
  "process_mot_data purple_batch
     = Inr (Some [uniform_row (mk_date 2025 9 4) (-1) 3 None (Some 0)])"
  by (simp add: purple_batch_def mot_eval)

text \<open>
  Two observations of one calendar day with different times of day are two rows of
  the pivot table, and both rows get the same \<open>feature_date\<close>.
\<close>

theorem process_mot_data_same_day:
  "process_mot_data same_day_batch
     = Inr (Some [(uniform_row (mk_date 2025 9 4) (-1) 3 None (Some 0))\<lparr>mrt_purple := Some 100\<rparr>,
                  (uniform_row (mk_date 2025 9 4) (-1) 3 None (Some 0))\<lparr>mrt_purple := Some 50\<rparr>])
   \<and> \<not> distinct (map feature_date
         [(uniform_row (mk_date 2025 9 4) (-1) 3 None (Some 0))\<lparr>mrt_purple := Some 100\<rparr>,
          (uniform_row (mk_date 2025 9 4) (-1) 3 None (Some 0))\<lparr>mrt_purple := Some 50\<rparr>])"
  by (simp add: same_day_batch_def mot_eval)

theorem process_mot_data_rows_witness:
  "process_mot_data canonical_batch
     = Inr (Some [(uniform_row (mk_date 2025 9 4) (-1) 3 None (Some 0))\<lparr>mrt_purple := Some 50\<rparr>,
                  (uniform_row (mk_date 2025 9 5) (-1) 4 None (Some 0))\<lparr>mrt_purple := Some 100\<rparr>])
   \<and> distinct (map feature_date
         [(uniform_row (mk_date 2025 9 4) (-1) 3 None (Some 0))\<lparr>mrt_purple := Some 50\<rparr>,
          (uniform_row (mk_date 2025 9 5) (-1) 4 None (Some 0))\<lparr>mrt_purple := Some 100\<rparr>])
   \<and> sorted (map (\<lambda>r. date_key (feature_date r))
         [(uniform_row (mk_date 2025 9 4) (-1) 3 None (Some 0))\<lparr>mrt_purple := Some 50\<rparr>,
          (uniform_row (mk_date 2025 9 5) (-1) 4 None (Some 0))\<lparr>mrt_purple := Some 100\<rparr>])
   \<and> map arl
         [(uniform_row (mk_date 2025 9 4) (-1) 3 None (Some 0))\<lparr>mrt_purple := Some 50\<rparr>,
          (uniform_row (mk_date 2025 9 5) (-1) 4 None (Some 0))\<lparr>mrt_purple := Some 100\<rparr>]
       = [Some 0, Some 0]"
proof -
  let ?rows = "[(uniform_row (mk_date 2025 9 4) (-1) 3 None (Some 0))\<lparr>mrt_purple := Some 50\<rparr>,
                (uniform_row (mk_date 2025 9 5) (-1) 4 None (Some 0))\<lparr>mrt_purple := Some 100\<rparr>]"
  have e: "process_mot_data canonical_batch = Inr (Some ?rows)"
    by (simp add: canonical_batch_def mot_eval)
  have v: "valid_records canonical_batch =
     [(\<lparr>ts_date = mk_date 2025 9 5, ts_time = 0\<rparr>, purple_canonical, 100),
      (\<lparr>ts_date = mk_date 2025 9 4, ts_time = 0\<rparr>, purple_canonical, 50),
      (\<lparr>ts_date = mk_date 2025 9 4, ts_time = 0\<rparr>, purple_canonical, 0)]"
    by (simp add: valid_records_def canonical_batch_def)
  have i: "inj_on ts_date (fst ` set (valid_records canonical_batch))"
    by (simp add: v mk_date_def)
  have n: "\<forall>(t, l, v) \<in> set (valid_records canonical_batch).
             target_column vehicle_mapping l \<noteq> Some Arl"
    by (simp add: v vehicle_mapping_def purple_canonical_def)
  from process_mot_data_rows [OF e] i n
  have "distinct (map feature_date ?rows)"
    "sorted (map (\<lambda>r. date_key (feature_date r)) ?rows)"
    "\<forall>r \<in> set ?rows. column_value Arl r = Some 0"
    by blast+
  with e show ?thesis by simp
qed

text \<open>
  C9. \<open>get_latest_date_from_db\<close> returns \<open>None\<close> on an empty table and when its query
  fails, and in no other case; \<open>main\<close> then returns \<open>False\<close> without requesting any
  month and without writing a row.
\<close>

theorem empty_store_stops_main:
  "(get_latest_date_from_db query_ok s \<noteq> None) = (query_ok \<and> s \<noteq> [])
   \<and> get_latest_date_from_db query_ok [] = None
   \<and> get_latest_date_from_db False s = None
   \<and> main today api query_ok [] = \<lparr>returned = Inr False, final_store = [], queries = []\<rparr>
   \<and> main today api False s = \<lparr>returned = Inr False, final_store = s, queries = []\<rparr>"
  by (simp add: get_latest_date_from_db_def main_def split: list.splits)

text \<open>
  With an API that has records for September 2025 and an empty table, \<open>main\<close> requests
  no month, writes no row and returns \<open>False\<close>.
\<close>

theorem empty_store_no_backfill:
  "backfill_api 2025 9 = Some canonical_batch
   \<and> get_latest_date_from_db True [] = None
   \<and> queries (main (mk_date 2025 10 1) backfill_api True []) = []
   \<and> final_store (main (mk_date 2025 10 1) backfill_api True []) = []
   \<and> returned (main (mk_date 2025 10 1) backfill_api True []) = Inr False"
  by (simp add: backfill_api_def get_latest_date_from_db_def main_def)

text \<open>
  The same API with a table whose latest date is 2025-09-03: \<open>main\<close> requests September
  and October and writes the two new days.
\<close>

lemma main_incremental_example:
  "main (mk_date 2025 10 1) backfill_api True september_store
     = \<lparr>returned = Inr True,
        final_store = september_store
          @ [(uniform_row (mk_date 2025 9 4) (-1) 3 None (Some 0))\<lparr>mrt_purple := Some 50\<rparr>,
             (uniform_row (mk_date 2025 9 5) (-1) 4 None (Some 0))\<lparr>mrt_purple := Some 100\<rparr>],
        queries = [(2025, 9), (2025, 10)]\<rparr>"
proof -
  have g: "get_latest_date_from_db True september_store = Some (mk_date 2025 9 3)"
    by (simp add: get_latest_date_from_db_def september_store_def uniform_row_def)
  define kept where "kept = filter_new_records canonical_batch (mk_date 2025 9 3)"
  have p: "process_mot_data kept
     = Inr (Some [(uniform_row (mk_date 2025 9 4) (-1) 3 None (Some 0))\<lparr>mrt_purple := Some 50\<rparr>,
                  (uniform_row (mk_date 2025 9 5) (-1) 4 None (Some 0))\<lparr>mrt_purple := Some 100\<rparr>])"
    "kept \<noteq> []"
    by (simp_all add: kept_def filter_new_records_def canonical_batch_def mot_eval)
  have i: "insert_new_data
       [(uniform_row (mk_date 2025 9 4) (-1) 3 None (Some 0))\<lparr>mrt_purple := Some 50\<rparr>,
        (uniform_row (mk_date 2025 9 5) (-1) 4 None (Some 0))\<lparr>mrt_purple := Some 100\<rparr>]
       september_store
     = (True, september_store
          @ [(uniform_row (mk_date 2025 9 4) (-1) 3 None (Some 0))\<lparr>mrt_purple := Some 50\<rparr>,
             (uniform_row (mk_date 2025 9 5) (-1) 4 None (Some 0))\<lparr>mrt_purple := Some 100\<rparr>])"
    by (simp add: insert_new_data_def september_store_def uniform_row_def date_key_def
        mk_date_def chunks.simps [of 100] execute_upsert_def upsert_row_def)
  have c: "canonical_batch \<noteq> []"
    by (simp add: canonical_batch_def)
  have d: "year (mk_date 2025 10 1) = 2025" "month (mk_date 2025 10 1) = 10"
    "year (mk_date 2025 9 3) = 2025" "month (mk_date 2025 9 3) = 9"
    by (simp_all add: mk_date_def)
  show ?thesis
    by (simp add: main_def g kept_def [symmetric] p i c d backfill_api_def
        fetch_mot_data_for_months_def Let_def)
qed

end
